theory Spec2Isabelle
  imports Main "HOL-Library.Word"
begin

unbundle bit_operations_syntax

chapter \<open>The model\<close>

section \<open>Strings\<close>

text \<open>
  Swift and JavaScript strings hold Unicode text, and the labels of the host application
  use characters outside ASCII (the German quotation marks). A string is therefore
  modelled as the list of its Unicode code points; \<open>ustr\<close> turns an ASCII literal into
  such a list. Combining sequences and surrogate pairs play no role in the code modelled
  here and are not represented.
\<close>

type_synonym uchar = int
type_synonym ustring = "uchar list"

definition ustr :: "string \<Rightarrow> ustring" where
  "ustr s = map of_char s"

section \<open>JavaScript string primitives\<close>

text \<open>
  The white space of ECMAScript, used by \<open>\s\<close> in a regular expression and by
  \<open>String.prototype.trim\<close>: the WhiteSpace code points together with the line
  terminators.
\<close>

definition isLineTerminator :: "uchar \<Rightarrow> bool" where
  "isLineTerminator c = (c = 0x0A \<or> c = 0x0D \<or> c = 0x2028 \<or> c = 0x2029)"

definition isJsWhiteSpace :: "uchar \<Rightarrow> bool" where
  "isJsWhiteSpace c =
     (c = 0x09 \<or> c = 0x0B \<or> c = 0x0C \<or> c = 0x20 \<or> c = 0xA0 \<or> c = 0x1680
      \<or> (0x2000 \<le> c \<and> c \<le> 0x200A) \<or> c = 0x202F \<or> c = 0x205F \<or> c = 0x3000
      \<or> c = 0xFEFF \<or> isLineTerminator c)"

text \<open>The class \<open>\w\<close>: ASCII letters, digits and the underscore.\<close>

definition isWordChar :: "uchar \<Rightarrow> bool" where
  "isWordChar c =
     ((0x30 \<le> c \<and> c \<le> 0x39) \<or> (0x41 \<le> c \<and> c \<le> 0x5A) \<or> c = 0x5F
      \<or> (0x61 \<le> c \<and> c \<le> 0x7A))"

definition jsTrim :: "ustring \<Rightarrow> ustring" where
  "jsTrim s = rev (dropWhile isJsWhiteSpace (rev (dropWhile isJsWhiteSpace s)))"

text \<open>\<open>s.split(sep)\<close> for a one-character separator: empty pieces are kept, and the
  empty string gives one empty piece.\<close>

fun jsSplit :: "uchar \<Rightarrow> ustring \<Rightarrow> ustring list" where
  "jsSplit sep [] = [[]]"
| "jsSplit sep (c # cs) =
     (if c = sep then [] # jsSplit sep cs
      else (case jsSplit sep cs of
              [] \<Rightarrow> [[c]]
            | p # ps \<Rightarrow> (c # p) # ps))"

section \<open>The plugin catalogue parser (parseAuvalOutput)\<close>

record AudioUnit =
  au_type :: ustring
  subtype :: ustring
  manufacturer :: ustring
  au_name :: ustring

text \<open>
  The regular expression of the source is
  \<^verbatim>\<open>/^\s*(\w{4})\s+(\w{4})\s+(\w{4})\s+-\s+(.+)$/\<close>
  without flags: \<open>^\<close> and \<open>$\<close> are the ends of the line, and \<open>.\<close> is any character but
  a line terminator. It is matched from the left, piece by piece.

  \<open>\s*\<close> and \<open>\s+\<close> are greedy. Where the next piece cannot start with white space
  (\<open>\w\<close>, \<open>-\<close>), giving back white space can never help, so the run taken is the whole
  run of white space.
\<close>

definition reSpaces0 :: "ustring \<Rightarrow> ustring" where
  "reSpaces0 s = dropWhile isJsWhiteSpace s"

definition reSpaces1 :: "ustring \<Rightarrow> ustring option" where
  "reSpaces1 s =
     (case s of
        [] \<Rightarrow> None
      | c # cs \<Rightarrow> if isJsWhiteSpace c then Some (dropWhile isJsWhiteSpace cs) else None)"

text \<open>\<open>(\w{4})\<close>: exactly four word characters; the capture and the rest.\<close>

definition reWord4 :: "ustring \<Rightarrow> (ustring \<times> ustring) option" where
  "reWord4 s =
     (if 4 \<le> length s \<and> list_all isWordChar (take 4 s) then Some (take 4 s, drop 4 s)
      else None)"

definition reDash :: "ustring \<Rightarrow> ustring option" where
  "reDash s = (case s of [] \<Rightarrow> None | c # cs \<Rightarrow> if c = 0x2D then Some cs else None)"

text \<open>
  The tail \<open>\s+(.+)$\<close>: \<open>.\<close> also matches white space, so here backtracking matters.
  \<open>\s+\<close> first takes the whole run of white space and gives characters back one at a
  time, down to one, until the rest is a non-empty run without line terminators
  reaching the end of the line. \<open>reTailFrom k s\<close> tries \<open>\s+\<close> of length \<open>k\<close>, then
  shorter ones.
\<close>

fun reTailFrom :: "nat \<Rightarrow> ustring \<Rightarrow> ustring option" where
  "reTailFrom 0 s = None"
| "reTailFrom (Suc k) s =
     (let r = drop (Suc k) s
      in if r \<noteq> [] \<and> list_all (\<lambda>c. \<not> isLineTerminator c) r then Some r
         else reTailFrom k s)"

definition reTail :: "ustring \<Rightarrow> ustring option" where
  "reTail s = reTailFrom (length (takeWhile isJsWhiteSpace s)) s"

definition auvalMatch :: "ustring \<Rightarrow> (ustring \<times> ustring \<times> ustring \<times> ustring) option" where
  "auvalMatch line =
     (case reWord4 (reSpaces0 line) of
        None \<Rightarrow> None
      | Some (m1, s1) \<Rightarrow>
     (case reSpaces1 s1 of
        None \<Rightarrow> None
      | Some s2 \<Rightarrow>
     (case reWord4 s2 of
        None \<Rightarrow> None
      | Some (m2, s3) \<Rightarrow>
     (case reSpaces1 s3 of
        None \<Rightarrow> None
      | Some s4 \<Rightarrow>
     (case reWord4 s4 of
        None \<Rightarrow> None
      | Some (m3, s5) \<Rightarrow>
     (case reSpaces1 s5 of
        None \<Rightarrow> None
      | Some s6 \<Rightarrow>
     (case reDash s6 of
        None \<Rightarrow> None
      | Some s7 \<Rightarrow>
     (case reTail s7 of
        None \<Rightarrow> None
      | Some m4 \<Rightarrow> Some (m1, m2, m3, m4)))))))))"

text \<open>The loop over the lines: a record is pushed for each matching line, and a line
  that does not match is passed over.\<close>

definition auvalPush :: "AudioUnit list \<Rightarrow> ustring \<Rightarrow> AudioUnit list" where
  "auvalPush plugins line =
     (case auvalMatch line of
        Some (m1, m2, m3, m4) \<Rightarrow>
          plugins @ [\<lparr>au_type = m1, subtype = m2, manufacturer = m3, au_name = jsTrim m4\<rparr>]
      | None \<Rightarrow> plugins)"


section \<open>The MIDI bridge (src/bridges/midi-bridge.ts)\<close>

text \<open>
  The module variable \<open>output\<close> is \<open>null\<close> or an open virtual port. The port is a
  sink, modelled by the list of messages handed to \<open>sendMessage\<close> so far.
\<close>

type_synonym midi_message = "int list"
type_synonym midi_output = "midi_message list option"

definition openMidiPort :: "midi_output \<Rightarrow> midi_output" where
  "openMidiPort output = (case output of Some sent \<Rightarrow> Some sent | None \<Rightarrow> Some [])"

definition closeMidiPort :: "midi_output \<Rightarrow> midi_output" where
  "closeMidiPort output = None"

definition isMidiPortOpen :: "midi_output \<Rightarrow> bool" where
  "isMidiPortOpen output = (output \<noteq> None)"

text \<open>
  JavaScript's \<open>&\<close> converts both operands with ToInt32 (the value modulo \<open>2^32\<close>, read as
  a signed 32-bit integer) and combines them bitwise. The arguments are integer-valued
  numbers, modelled as \<open>int\<close>.
\<close>

definition toInt32 :: "int \<Rightarrow> int" where
  "toInt32 n = (let m = n mod 2 ^ 32 in if m \<ge> 2 ^ 31 then m - 2 ^ 32 else m)"

definition jsAnd :: "int \<Rightarrow> int \<Rightarrow> int" where
  "jsAnd a b = toInt32 a AND toInt32 b"

definition sendMessage :: "midi_message \<Rightarrow> midi_message list \<Rightarrow> midi_output" where
  "sendMessage msg sent = Some (sent @ [msg])"

definition sendNoteOn :: "int \<Rightarrow> int \<Rightarrow> int \<Rightarrow> midi_output \<Rightarrow> string + midi_output" where
  "sendNoteOn channel note velocity output =
     (case output of
        None \<Rightarrow> Inl ''MIDI port not open''
      | Some sent \<Rightarrow>
          Inr (sendMessage [0x90 + jsAnd channel 0x0f, jsAnd note 0x7f, jsAnd velocity 0x7f] sent))"

definition sendNoteOff :: "int \<Rightarrow> int \<Rightarrow> midi_output \<Rightarrow> string + midi_output" where
  "sendNoteOff channel note output =
     (case output of
        None \<Rightarrow> Inl ''MIDI port not open''
      | Some sent \<Rightarrow> Inr (sendMessage [0x80 + jsAnd channel 0x0f, jsAnd note 0x7f, 0] sent))"

definition sendCC :: "int \<Rightarrow> int \<Rightarrow> int \<Rightarrow> midi_output \<Rightarrow> string + midi_output" where
  "sendCC channel controller val output =
     (case output of
        None \<Rightarrow> Inl ''MIDI port not open''
      | Some sent \<Rightarrow>
          Inr (sendMessage [0xb0 + jsAnd channel 0x0f, jsAnd controller 0x7f, jsAnd val 0x7f] sent))"

definition sendProgramChange :: "int \<Rightarrow> int \<Rightarrow> midi_output \<Rightarrow> string + midi_output" where
  "sendProgramChange channel program output =
     (case output of
        None \<Rightarrow> Inl ''MIDI port not open''
      | Some sent \<Rightarrow> Inr (sendMessage [0xc0 + jsAnd channel 0x0f, jsAnd program 0x7f] sent))"

text \<open>What a well-formed channel-voice message is: a status byte made of the command
  nibble and a channel 0..15, followed by data bytes 0..127.\<close>

definition data_byte :: "int \<Rightarrow> bool" where
  "data_byte b = (0 \<le> b \<and> b \<le> 127)"

definition channel_voice :: "int \<Rightarrow> midi_message \<Rightarrow> bool" where
  "channel_voice command msg =
     (case msg of
        [] \<Rightarrow> False
      | status # data \<Rightarrow> command \<le> status \<and> status \<le> command + 15 \<and> list_all data_byte data)"

section \<open>Swift string primitives\<close>

text \<open>
  \<open>CharacterSet.whitespaces\<close>: the code points of general category Zs and the
  character tabulation.
\<close>

definition isSwiftWhitespace :: "uchar \<Rightarrow> bool" where
  "isSwiftWhitespace c =
     (c = 0x09 \<or> c = 0x20 \<or> c = 0xA0 \<or> c = 0x1680 \<or> (0x2000 \<le> c \<and> c \<le> 0x200A)
      \<or> c = 0x202F \<or> c = 0x205F \<or> c = 0x3000)"

text \<open>\<open>s.trimmingCharacters(in: .whitespaces)\<close>\<close>

definition trimmingWhitespaces :: "ustring \<Rightarrow> ustring" where
  "trimmingWhitespaces s =
     rev (dropWhile isSwiftWhitespace (rev (dropWhile isSwiftWhitespace s)))"

text \<open>\<open>s.hasPrefix(p)\<close>\<close>

definition hasPrefix :: "ustring \<Rightarrow> ustring \<Rightarrow> bool" where
  "hasPrefix s p = (take (length p) s = p)"

text \<open>\<open>s.contains(sub)\<close> for a non-empty \<open>sub\<close>: \<open>sub\<close> occurs somewhere in \<open>s\<close>.\<close>

fun containsString :: "ustring \<Rightarrow> ustring \<Rightarrow> bool" where
  "containsString [] sub = (sub = [])"
| "containsString (c # cs) sub = (hasPrefix (c # cs) sub \<or> containsString cs sub)"

text \<open>
  \<open>s.lowercased()\<close>. The model maps the ASCII capital letters to the small ones and
  leaves every other code point as it is; the case mapping of letters outside ASCII is
  not represented.
\<close>

definition lowercasedChar :: "uchar \<Rightarrow> uchar" where
  "lowercasedChar c = (if 0x41 \<le> c \<and> c \<le> 0x5A then c + 0x20 else c)"

definition lowercased :: "ustring \<Rightarrow> ustring" where
  "lowercased s = map lowercasedChar s"

text \<open>
  \<open>s.range(of: c)\<close> for a one-character needle, in the two ways the code uses the
  range: the text after the first occurrence (\<open>s[range.upperBound...]\<close>) and the text
  before it (\<open>s[..<range.lowerBound]\<close>). \<open>None\<close> when \<open>c\<close> does not occur.
\<close>

fun afterFirst :: "uchar \<Rightarrow> ustring \<Rightarrow> ustring option" where
  "afterFirst c [] = None"
| "afterFirst c (x # xs) = (if x = c then Some xs else afterFirst c xs)"

fun beforeFirst :: "uchar \<Rightarrow> ustring \<Rightarrow> ustring option" where
  "beforeFirst c [] = None"
| "beforeFirst c (x # xs) =
     (if x = c then Some [] else map_option (\<lambda>r. x # r) (beforeFirst c xs))"

text \<open>\<open>s.replacingOccurrences(of: c, with: "")\<close> for a one-character \<open>c\<close>\<close>

definition removingOccurrences :: "uchar \<Rightarrow> ustring \<Rightarrow> ustring" where
  "removingOccurrences c s = filter (\<lambda>x. x \<noteq> c) s"

text \<open>
  \<open>s.split(separator: sep, maxSplits: k)\<close> with the default
  \<open>omittingEmptySubsequences: true\<close>, after the standard library: the text is scanned
  from the left; at a separator the piece collected so far is appended unless it is
  empty; once \<open>k\<close> pieces have been appended the scan stops and the rest of the text,
  if not empty, is the last piece. \<open>swiftSplitFrom sep k cur rest\<close> is the scan with
  \<open>k\<close> splits left, the piece \<open>cur\<close> collected so far and \<open>rest\<close> still to read.
\<close>

fun swiftSplitFrom :: "uchar \<Rightarrow> int \<Rightarrow> ustring \<Rightarrow> ustring \<Rightarrow> ustring list" where
  "swiftSplitFrom sep k cur [] = (if cur = [] then [] else [cur])"
| "swiftSplitFrom sep k cur (c # cs) =
     (if c = sep then
        (if cur = [] then swiftSplitFrom sep k [] cs
         else if k = 1 then cur # (if cs = [] then [] else [cs])
         else cur # swiftSplitFrom sep (k - 1) [] cs)
      else swiftSplitFrom sep k (cur @ [c]) cs)"

definition swiftSplit :: "uchar \<Rightarrow> int \<Rightarrow> ustring \<Rightarrow> ustring list" where
  "swiftSplit sep maxSplits s =
     (if maxSplits = 0 \<or> s = [] then (if s = [] then [] else [s])
      else swiftSplitFrom sep maxSplits [] s)"

text \<open>\<open>Int.max\<close>, the default of \<open>maxSplits\<close>\<close>

definition IntMax :: int where
  "IntMax = 2 ^ 63 - 1"

definition IntMin :: int where
  "IntMin = - (2 ^ 63)"

text \<open>
  \<open>Int(s)\<close>: an optional sign \<open>+\<close> or \<open>-\<close> followed by one or more ASCII digits, and a
  value that fits 64 bits; \<open>nil\<close> otherwise.
\<close>

definition isDigit :: "uchar \<Rightarrow> bool" where
  "isDigit c = (0x30 \<le> c \<and> c \<le> 0x39)"

definition decimalValue :: "ustring \<Rightarrow> int" where
  "decimalValue ds = foldl (\<lambda>a d. 10 * a + (d - 0x30)) 0 ds"

definition swiftInt :: "ustring \<Rightarrow> int option" where
  "swiftInt s =
     (case s of
        [] \<Rightarrow> None
      | c # cs \<Rightarrow>
          if c = 0x2D then
            (if cs \<noteq> [] \<and> list_all isDigit cs \<and> IntMin \<le> - decimalValue cs
             then Some (- decimalValue cs) else None)
          else if c = 0x2B then
            (if cs \<noteq> [] \<and> list_all isDigit cs \<and> decimalValue cs \<le> IntMax
             then Some (decimalValue cs) else None)
          else
            (if list_all isDigit (c # cs) \<and> decimalValue (c # cs) \<le> IntMax
             then Some (decimalValue (c # cs)) else None))"

definition orEmpty :: "ustring option \<Rightarrow> ustring" where
  "orEmpty s = (case s of None \<Rightarrow> [] | Some t \<Rightarrow> t)"

section \<open>The element model (swift-helper/Sources/LogicAccessibility/main.swift)\<close>

text \<open>
  An accessibility element as the helper reads it: the role, title and description
  attributes (\<open>None\<close> when the attribute cannot be read or is not a string), the value
  attribute as \<open>getValue\<close> returns it (a string, or the text of a number), and the
  children (\<open>getChildren\<close> gives the empty list when there are none).
\<close>

datatype element =
  Element (axRole: "ustring option") (axTitle: "ustring option")
    (axDescription: "ustring option") (axValue: "ustring option")
    (axChildren: "element list")

definition getRole :: "element \<Rightarrow> ustring option" where
  "getRole e = axRole e"

definition getTitle :: "element \<Rightarrow> ustring option" where
  "getTitle e = axTitle e"

definition getDescription :: "element \<Rightarrow> ustring option" where
  "getDescription e = axDescription e"

definition getValue :: "element \<Rightarrow> ustring option" where
  "getValue e = axValue e"

definition getChildren :: "element \<Rightarrow> element list" where
  "getChildren e = axChildren e"

subsection \<open>Pattern matchers\<close>

definition isTrackDescription :: "ustring \<Rightarrow> bool" where
  "isTrackDescription desc = (hasPrefix desc (ustr ''Spur '') \<or> hasPrefix desc (ustr ''Track ''))"

text \<open>
  The German format opens the name with U+201E; the characters U+201C, U+201D and the
  straight quote are then removed from the rest. The English format takes the text
  between the first straight quote and the next one.
\<close>

definition extractTrackName :: "ustring \<Rightarrow> ustring" where
  "extractTrackName desc =
     (case afterFirst 0x201E desc of
        Some rest \<Rightarrow>
          trimmingWhitespaces
            (removingOccurrences 0x22 (removingOccurrences 0x201D (removingOccurrences 0x201C rest)))
      | None \<Rightarrow>
     (case afterFirst 0x22 desc of
        Some rest \<Rightarrow>
          trimmingWhitespaces (case beforeFirst 0x22 rest of Some inner \<Rightarrow> inner | None \<Rightarrow> rest)
      | None \<Rightarrow>
          (let parts = swiftSplit 0x20 2 desc
           in if length parts \<ge> 3 then parts ! 2 else desc)))"

definition extractTrackNumber :: "ustring \<Rightarrow> int" where
  "extractTrackNumber desc =
     (let parts = swiftSplit 0x20 IntMax desc
      in if length parts \<ge> 2
         then (case swiftInt (parts ! 1) of Some num \<Rightarrow> num | None \<Rightarrow> - 1)
         else - 1)"

text \<open>
  The label of a control (\<open>let name = !desc.isEmpty ? desc : title\<close>) and the
  comparison of a label with the parameter name asked for
  (\<open>name.lowercased() == paramName.lowercased()\<close>).
\<close>

definition controlName :: "element \<Rightarrow> ustring" where
  "controlName element =
     (let title = orEmpty (getTitle element); desc = orEmpty (getDescription element)
      in if desc \<noteq> [] then desc else title)"

definition matchesControlName :: "ustring \<Rightarrow> ustring \<Rightarrow> bool" where
  "matchesControlName name paramName = (lowercased name = lowercased paramName)"

subsection \<open>find-by-label\<close>

fun findElementByDescription :: "element \<Rightarrow> ustring \<Rightarrow> int \<Rightarrow> element option"
  and findElementByDescriptionIn :: "element list \<Rightarrow> ustring \<Rightarrow> int \<Rightarrow> element option"
where
  "findElementByDescription (Element r t d v children) description maxDepth =
     (case find (\<lambda>child. orEmpty (getDescription child) = description) children of
        Some child \<Rightarrow> Some child
      | None \<Rightarrow>
          if maxDepth > 0 then findElementByDescriptionIn children description (maxDepth - 1)
          else None)"
| "findElementByDescriptionIn [] description maxDepth = None"
| "findElementByDescriptionIn (child # rest) description maxDepth =
     (case findElementByDescription child description maxDepth of
        Some found \<Rightarrow> Some found
      | None \<Rightarrow> findElementByDescriptionIn rest description maxDepth)"

subsection \<open>Track extraction\<close>

record TrackInfo =
  index :: int
  trackNumber :: int
  name :: ustring
  muted :: bool
  solo :: bool
  recordEnabled :: bool
  volume :: int
  plugins :: "ustring list"

record TrackMeta =
  metaMuted :: bool
  metaSolo :: bool
  metaRecordEnabled :: bool
  metaVolume :: int

text \<open>One round of the loop of \<open>extractTrackMeta\<close>.\<close>

definition trackMetaStep :: "TrackMeta \<Rightarrow> element \<Rightarrow> TrackMeta" where
  "trackMetaStep meta child =
     (let role = orEmpty (getRole child);
          desc = orEmpty (getDescription child);
          val = orEmpty (getValue child)
      in if role = ustr ''AXCheckBox'' then
           (if desc = ustr ''Mute'' then meta\<lparr>metaMuted := (val = ustr ''1'')\<rparr>
            else if desc = ustr ''Solo'' then meta\<lparr>metaSolo := (val = ustr ''1'')\<rparr>
            else if containsString desc (ustr ''Aufnahme'') \<or> containsString desc (ustr ''Record'')
              then meta\<lparr>metaRecordEnabled := (val = ustr ''1'')\<rparr>
            else meta)
         else if role = ustr ''AXSlider'' \<and> desc = ustr ''Volume'' then
           meta\<lparr>metaVolume := (case swiftInt val of Some n \<Rightarrow> n | None \<Rightarrow> 0)\<rparr>
         else meta)"

definition extractTrackMeta :: "element list \<Rightarrow> TrackMeta" where
  "extractTrackMeta children =
     foldl trackMetaStep
       \<lparr>metaMuted = False, metaSolo = False, metaRecordEnabled = False, metaVolume = 0\<rparr>
       children"

fun findPluginNames :: "element list \<Rightarrow> ustring list" where
  "findPluginNames [] = []"
| "findPluginNames (Element r t d v children # rest) =
     (let role = orEmpty r; title = orEmpty t
      in (if role = ustr ''AXButton'' \<and> title \<noteq> [] \<and> title \<noteq> ustr ''M'' \<and> title \<noteq> ustr ''S''
               \<and> title \<noteq> ustr ''R''
          then [title] else [])
         @ (if children \<noteq> [] then findPluginNames children else [])
         @ findPluginNames rest)"

text \<open>The dictionary appended for a track element, given the tracks collected so far.\<close>

definition trackEntry :: "TrackInfo list \<Rightarrow> element \<Rightarrow> TrackInfo" where
  "trackEntry tracks element =
     (let desc = orEmpty (getDescription element);
          trackName = extractTrackName desc;
          trackNum = extractTrackNumber desc;
          children = getChildren element;
          trackMeta = extractTrackMeta children
      in \<lparr>index = int (length tracks),
          trackNumber = trackNum,
          name = trackName,
          muted = metaMuted trackMeta,
          solo = metaSolo trackMeta,
          recordEnabled = metaRecordEnabled trackMeta,
          volume = metaVolume trackMeta,
          plugins = findPluginNames children\<rparr>)"

definition isTrackElement :: "element \<Rightarrow> bool" where
  "isTrackElement element =
     (orEmpty (getRole element) = ustr ''AXLayoutItem''
      \<and> isTrackDescription (orEmpty (getDescription element)))"

text \<open>
  \<open>collectTrackElements\<close>: the guard on the depth, then the loop over the elements
  (\<open>collectTrackLoop\<close>). The \<open>inout\<close> array \<open>tracks\<close> is passed in and returned.
\<close>

fun collectTrackElements :: "element list \<Rightarrow> TrackInfo list \<Rightarrow> int \<Rightarrow> int \<Rightarrow> TrackInfo list"
  and collectTrackLoop :: "element list \<Rightarrow> TrackInfo list \<Rightarrow> int \<Rightarrow> int \<Rightarrow> TrackInfo list"
where
  "collectTrackElements elements tracks depth maxDepth =
     (if depth < maxDepth then collectTrackLoop elements tracks depth maxDepth else tracks)"
| "collectTrackLoop [] tracks depth maxDepth = tracks"
| "collectTrackLoop (Element r t d v children # rest) tracks depth maxDepth =
     (let element = Element r t d v children;
          tracks1 = (if isTrackElement element then tracks @ [trackEntry tracks element]
                     else tracks);
          tracks2 = (if children \<noteq> []
                     then collectTrackElements children tracks1 (depth + 1) maxDepth
                     else tracks1)
      in collectTrackLoop rest tracks2 depth maxDepth)"

definition extractTracks :: "element \<Rightarrow> TrackInfo list" where
  "extractTracks spurenGroup = collectTrackElements (getChildren spurenGroup) [] 0 12"

subsection \<open>Plugin parameters\<close>

record PluginParameter =
  paramName :: ustring
  paramValue :: ustring
  paramRole :: ustring

definition isParameterRole :: "ustring \<Rightarrow> bool" where
  "isParameterRole role =
     (role = ustr ''AXSlider'' \<or> role = ustr ''AXTextField'' \<or> role = ustr ''AXPopUpButton'')"

fun findParameters :: "element list \<Rightarrow> PluginParameter list \<Rightarrow> int \<Rightarrow> int \<Rightarrow> PluginParameter list"
  and findParametersLoop :: "element list \<Rightarrow> PluginParameter list \<Rightarrow> int \<Rightarrow> int \<Rightarrow> PluginParameter list"
where
  "findParameters elements params depth maxDepth =
     (if depth < maxDepth then findParametersLoop elements params depth maxDepth else params)"
| "findParametersLoop [] params depth maxDepth = params"
| "findParametersLoop (Element r t d v children # rest) params depth maxDepth =
     (let element = Element r t d v children;
          role = orEmpty r;
          val = orEmpty v;
          pname = controlName element;
          params1 = (if isParameterRole role \<and> pname \<noteq> []
                     then params @ [\<lparr>paramName = pname, paramValue = val, paramRole = role\<rparr>]
                     else params);
          params2 = (if children \<noteq> []
                     then findParameters children params1 (depth + 1) maxDepth
                     else params1)
      in findParametersLoop rest params2 depth maxDepth)"

subsection \<open>find-and-mutate\<close>

text \<open>
  \<open>AXUIElementSetAttributeValue(element, kAXValueAttribute, v)\<close>: the host is modelled
  as storing the value in the element. The result of the call is ignored by the code.
\<close>

definition setValueAttribute :: "element \<Rightarrow> ustring \<Rightarrow> element" where
  "setValueAttribute element v =
     Element (axRole element) (axTitle element) (axDescription element) (Some v)
       (axChildren element)"

text \<open>
  The test of one element in \<open>findAndSetParameter\<close>: the element after the write when
  the function writes and returns \<open>true\<close>, \<open>None\<close> when it goes on searching.
  \<open>floatText\<close> stands for the initializer \<open>Float(value)\<close> of the Swift library: \<open>None\<close>
  when the text is not a number, otherwise the text that \<open>getValue\<close> reads back for the
  number written.
\<close>

definition trySetParameter ::
  "(ustring \<Rightarrow> ustring option) \<Rightarrow> element \<Rightarrow> ustring \<Rightarrow> ustring \<Rightarrow> element option"
where
  "trySetParameter floatText element pname val =
     (let role = orEmpty (getRole element)
      in if matchesControlName (controlName element) pname then
           (if role = ustr ''AXSlider'' then
              (case floatText val of
                 Some numValue \<Rightarrow> Some (setValueAttribute element numValue)
               | None \<Rightarrow> None)
            else if role = ustr ''AXTextField'' then Some (setValueAttribute element val)
            else None)
         else None)"

fun findAndSetParameter ::
    "(ustring \<Rightarrow> ustring option) \<Rightarrow> element list \<Rightarrow> ustring \<Rightarrow> ustring \<Rightarrow> int \<Rightarrow> int
      \<Rightarrow> bool \<times> element list"
  and findAndSetLoop ::
    "(ustring \<Rightarrow> ustring option) \<Rightarrow> element list \<Rightarrow> ustring \<Rightarrow> ustring \<Rightarrow> int \<Rightarrow> int
      \<Rightarrow> bool \<times> element list"
where
  "findAndSetParameter floatText elements pname val depth maxDepth =
     (if depth < maxDepth then findAndSetLoop floatText elements pname val depth maxDepth
      else (False, elements))"
| "findAndSetLoop floatText [] pname val depth maxDepth = (False, [])"
| "findAndSetLoop floatText (Element r t d v children # rest) pname val depth maxDepth =
     (case trySetParameter floatText (Element r t d v children) pname val of
        Some written \<Rightarrow> (True, written # rest)
      | None \<Rightarrow>
          (case (if children \<noteq> []
                 then findAndSetParameter floatText children pname val (depth + 1) maxDepth
                 else (False, children)) of
             (True, children') \<Rightarrow> (True, Element r t d v children' # rest)
           | (False, children') \<Rightarrow>
               (case findAndSetLoop floatText rest pname val depth maxDepth of
                  (found, rest') \<Rightarrow> (found, Element r t d v children' # rest'))))"

subsection \<open>Pre-order\<close>

text \<open>
  The elements of a forest in pre-order (an element before its children, siblings in
  order), each with its depth; the roots have depth \<open>d\<close>.
\<close>

fun preorder :: "int \<Rightarrow> element list \<Rightarrow> (int \<times> element) list" where
  "preorder d [] = []"
| "preorder d (Element r t ds v children # rest) =
     (d, Element r t ds v children) # preorder (d + 1) children @ preorder d rest"

subsection \<open>Equality up to the case of letters\<close>


subsection \<open>The commands of the helper\<close>

text \<open>
  The application the helper talks to: \<open>None\<close> when Logic Pro is not running;
  otherwise its main window (the attribute may be missing) and its children, the
  windows.
\<close>

record logicApp =
  mainWindow :: "element option"
  windows :: "element list"

text \<open>
  What a command writes. Standard output holds plain lines, JSON documents and the
  usage text of \<open>printUsage\<close>; a JSON document is kept as the data serialized, not
  as text. Standard error holds the lines of \<open>printError\<close>.
\<close>

record DumpEntry =
  dumpDepth :: ustring
  dumpRole :: ustring
  dumpTitle :: ustring
  dumpDescription :: ustring
  dumpValue :: ustring

datatype outItem =
  OutLine ustring
| OutTracks "TrackInfo list"
| OutParams "PluginParameter list"
| OutDump "DumpEntry list"
| OutUsage

record procOutput =
  stdout :: "outItem list"
  stderr :: "ustring list"

definition noOutput :: procOutput where
  "noOutput = \<lparr>stdout = [], stderr = []\<rparr>"

definition printLine :: "ustring \<Rightarrow> procOutput \<Rightarrow> procOutput" where
  "printLine s out = out\<lparr>stdout := stdout out @ [OutLine s]\<rparr>"

definition printError :: "ustring \<Rightarrow> procOutput \<Rightarrow> procOutput" where
  "printError message out = out\<lparr>stderr := stderr out @ [ustr ''[logic-ax] '' @ message]\<rparr>"

definition outputJSON :: "TrackInfo list \<Rightarrow> procOutput \<Rightarrow> procOutput" where
  "outputJSON tracks out = out\<lparr>stdout := stdout out @ [OutTracks tracks]\<rparr>"

definition listTracks :: "logicApp option \<Rightarrow> procOutput" where
  "listTracks running =
     (case running of
        None \<Rightarrow> printLine (ustr ''[]'') (printError (ustr ''Logic Pro is not running'') noOutput)
      | Some app \<Rightarrow>
     (case mainWindow app of
        None \<Rightarrow> printLine (ustr ''[]'') noOutput
      | Some window \<Rightarrow>
     (case findElementByDescription window (ustr ''Spuren'') 4 of
        None \<Rightarrow>
          (case findElementByDescription window (ustr ''Tracks'') 4 of
             None \<Rightarrow>
               printLine (ustr ''[]'')
                 (printError (ustr ''Could not find tracks area in Logic Pro window'') noOutput)
           | Some tracksGroup \<Rightarrow> outputJSON (extractTracks tracksGroup) noOutput)
      | Some spurenGroup \<Rightarrow> outputJSON (extractTracks spurenGroup) noOutput)))"

text \<open>
  The track sequence a reader of standard output gets: the document written by
  \<open>outputJSON\<close>, or the empty sequence for the line \<open>[]\<close>.
\<close>

definition printedTracks :: "procOutput \<Rightarrow> TrackInfo list option" where
  "printedTracks out =
     (case stdout out of
        [OutTracks tracks] \<Rightarrow> Some tracks
      | [OutLine s] \<Rightarrow> if s = ustr ''[]'' then Some [] else None
      | _ \<Rightarrow> None)"

subsection \<open>What the walks collect\<close>



definition isPluginButton :: "element \<Rightarrow> bool" where
  "isPluginButton element =
     (orEmpty (getRole element) = ustr ''AXButton'' \<and> orEmpty (getTitle element) \<noteq> []
      \<and> orEmpty (getTitle element) \<noteq> ustr ''M'' \<and> orEmpty (getTitle element) \<noteq> ustr ''S''
      \<and> orEmpty (getTitle element) \<noteq> ustr ''R'')"



section \<open>The fallback script (listTracksJXA in src/bridges/accessibility.ts)\<close>

text \<open>
  The script walks the same tree through System Events. An accessor of the script
  (\<open>role()\<close>, \<open>description()\<close>, \<open>value()\<close>) gives \<open>null\<close> for an attribute that is
  \<open>None\<close> in the model; errors of the scripting bridge, which the \<open>try\<close> blocks of the
  script swallow, are not represented.
\<close>

text \<open>
  \<open>parseInt(s)\<close> without a radix: leading white space is skipped, a sign is read, the
  prefix \<open>0x\<close> or \<open>0X\<close> selects base 16, and the longest run of digits is the value;
  \<open>NaN\<close> (here \<open>None\<close>) when there is no digit. The result is the integer the digits
  denote; a JavaScript number holds it exactly when it is below \<open>2^53\<close> in absolute
  value.
\<close>

definition hexDigitValue :: "uchar \<Rightarrow> int option" where
  "hexDigitValue c =
     (if 0x30 \<le> c \<and> c \<le> 0x39 then Some (c - 0x30)
      else if 0x41 \<le> c \<and> c \<le> 0x46 then Some (c - 0x41 + 10)
      else if 0x61 \<le> c \<and> c \<le> 0x66 then Some (c - 0x61 + 10)
      else None)"

definition hexValue :: "ustring \<Rightarrow> int" where
  "hexValue ds = foldl (\<lambda>a d. 16 * a + (case hexDigitValue d of Some x \<Rightarrow> x | None \<Rightarrow> 0)) 0 ds"

definition jsParseInt :: "ustring \<Rightarrow> int option" where
  "jsParseInt s =
     (let s1 = dropWhile isJsWhiteSpace s;
          sign = (case s1 of c # cs \<Rightarrow> if c = 0x2D then - 1 else 1 | [] \<Rightarrow> 1);
          s2 = (case s1 of c # cs \<Rightarrow> if c = 0x2D \<or> c = 0x2B then cs else s1 | [] \<Rightarrow> s1)
      in if hasPrefix s2 (ustr ''0x'') \<or> hasPrefix s2 (ustr ''0X'') then
           (let ds = takeWhile (\<lambda>c. hexDigitValue c \<noteq> None) (drop 2 s2)
            in if ds = [] then None else Some (sign * hexValue ds))
         else
           (let ds = takeWhile isDigit s2
            in if ds = [] then None else Some (sign * decimalValue ds)))"

text \<open>The text before the last occurrence of a character
  (\<open>s.substring(0, s.lastIndexOf(c))\<close>); \<open>None\<close> when it does not occur.\<close>

definition beforeLast :: "uchar \<Rightarrow> ustring \<Rightarrow> ustring option" where
  "beforeLast c s = map_option rev (afterFirst c (rev s))"

definition jxaTrackName :: "ustring \<Rightarrow> ustring" where
  "jxaTrackName desc =
     (case afterFirst 0x201E desc of
        Some rest \<Rightarrow> jsTrim (filter (\<lambda>c. c \<noteq> 0x201C \<and> c \<noteq> 0x201D \<and> c \<noteq> 0x22) rest)
      | None \<Rightarrow>
     (case afterFirst 0x22 desc of
        Some rest \<Rightarrow> (case beforeLast 0x22 rest of Some inner \<Rightarrow> inner | None \<Rightarrow> rest)
      | None \<Rightarrow> desc))"

text \<open>The track number: \<open>None\<close> stands for \<open>NaN\<close>, which \<open>JSON.stringify\<close> writes as
  \<open>null\<close>.\<close>

definition jxaTrackNumber :: "ustring \<Rightarrow> int option" where
  "jxaTrackNumber desc =
     (let parts = jsSplit 0x20 desc
      in if length parts \<ge> 2 then jsParseInt (parts ! 1) else Some (- 1))"

record JxaTrack =
  jxIndex :: int
  jxTrackNumber :: "int option"
  jxName :: ustring
  jxMuted :: bool
  jxSolo :: bool
  jxRecordEnabled :: bool
  jxVolume :: int
  jxPlugins :: "ustring list"

text \<open>
  One round of the loop over the children of a track. The value read is a JavaScript
  value; the model keeps its text and takes the loose comparison \<open>cv == 1\<close> as the
  parameter \<open>equalsOne\<close> (for an absent value the comparison \<open>null == 1\<close> is false).
\<close>

definition jxaMetaStep :: "(ustring \<Rightarrow> bool) \<Rightarrow> TrackMeta \<Rightarrow> element \<Rightarrow> TrackMeta" where
  "jxaMetaStep equalsOne meta child =
     (let cr = getRole child; cd = getDescription child; cv = getValue child;
          one = (case cv of Some s \<Rightarrow> equalsOne s | None \<Rightarrow> False)
      in if cr = Some (ustr ''AXCheckBox'') then
           (if cd = Some (ustr ''Mute'') then meta\<lparr>metaMuted := one\<rparr>
            else if cd = Some (ustr ''Solo'') then meta\<lparr>metaSolo := one\<rparr>
            else if cd \<noteq> None \<and> cd \<noteq> Some []
                    \<and> (containsString (orEmpty cd) (ustr ''Aufnahme'')
                        \<or> containsString (orEmpty cd) (ustr ''Record''))
              then meta\<lparr>metaRecordEnabled := one\<rparr>
            else meta)
         else if cr = Some (ustr ''AXSlider'') \<and> cd = Some (ustr ''Volume'') then
           meta\<lparr>metaVolume :=
             (case cv of
                None \<Rightarrow> 0
              | Some s \<Rightarrow> (case jsParseInt s of Some n \<Rightarrow> n | None \<Rightarrow> 0))\<rparr>
         else meta)"

definition jxaIsTrack :: "element \<Rightarrow> bool" where
  "jxaIsTrack el =
     (getRole el = Some (ustr ''AXLayoutItem'')
      \<and> (case getDescription el of
            None \<Rightarrow> False
          | Some desc \<Rightarrow> desc \<noteq> [] \<and> (hasPrefix desc (ustr ''Spur '') \<or> hasPrefix desc (ustr ''Track ''))))"

definition jxaTrackEntry :: "(ustring \<Rightarrow> bool) \<Rightarrow> JxaTrack list \<Rightarrow> element \<Rightarrow> JxaTrack" where
  "jxaTrackEntry equalsOne tracks el =
     (let desc = orEmpty (getDescription el);
          meta = foldl (jxaMetaStep equalsOne)
                   \<lparr>metaMuted = False, metaSolo = False, metaRecordEnabled = False, metaVolume = 0\<rparr>
                   (getChildren el)
      in \<lparr>jxIndex = int (length tracks),
          jxTrackNumber = jxaTrackNumber desc,
          jxName = jxaTrackName desc,
          jxMuted = metaMuted meta,
          jxSolo = metaSolo meta,
          jxRecordEnabled = metaRecordEnabled meta,
          jxVolume = metaVolume meta,
          jxPlugins = []\<rparr>)"

text \<open>\<open>findTracks(element, depth, tracks)\<close> and its loop over \<open>element.uiElements()\<close>.\<close>

fun jxaFindTracks :: "(ustring \<Rightarrow> bool) \<Rightarrow> element \<Rightarrow> int \<Rightarrow> JxaTrack list \<Rightarrow> JxaTrack list"
  and jxaFindTracksLoop ::
    "(ustring \<Rightarrow> bool) \<Rightarrow> element list \<Rightarrow> int \<Rightarrow> JxaTrack list \<Rightarrow> JxaTrack list"
where
  "jxaFindTracks equalsOne (Element r t d v uiElems) depth tracks =
     (if depth > 12 then tracks else jxaFindTracksLoop equalsOne uiElems depth tracks)"
| "jxaFindTracksLoop equalsOne [] depth tracks = tracks"
| "jxaFindTracksLoop equalsOne (el # rest) depth tracks =
     (let tracks1 = (if jxaIsTrack el then tracks @ [jxaTrackEntry equalsOne tracks el]
                     else tracks);
          tracks2 = jxaFindTracks equalsOne el (depth + 1) tracks1
      in jxaFindTracksLoop equalsOne rest depth tracks2)"

text \<open>\<open>findSpurenGroup(element, depth)\<close>: the loop runs over \<open>element.groups()\<close>, the
  children of role \<open>AXGroup\<close>.\<close>

fun findSpurenGroup :: "element \<Rightarrow> int \<Rightarrow> element option"
  and findSpurenGroupLoop :: "element list \<Rightarrow> int \<Rightarrow> element option"
where
  "findSpurenGroup (Element r t d v children) depth =
     (if depth > 5 then None else findSpurenGroupLoop children depth)"
| "findSpurenGroupLoop [] depth = None"
| "findSpurenGroupLoop (g # rest) depth =
     (if getRole g = Some (ustr ''AXGroup'') then
        (if getDescription g = Some (ustr ''Spuren'') \<or> getDescription g = Some (ustr ''Tracks'')
         then Some g
         else (case findSpurenGroup g (depth + 1) of
                 Some found \<Rightarrow> Some found
               | None \<Rightarrow> findSpurenGroupLoop rest depth))
      else findSpurenGroupLoop rest depth)"

text \<open>The script as a whole, run on the first window of the process (\<open>None\<close> when there
  is none): the tracks it serializes.\<close>

definition jxaScript :: "(ustring \<Rightarrow> bool) \<Rightarrow> element option \<Rightarrow> JxaTrack list" where
  "jxaScript equalsOne win =
     (case win of
        None \<Rightarrow> []
      | Some w \<Rightarrow>
          (case findSpurenGroup w 0 of
             None \<Rightarrow> []
           | Some spurenGroup \<Rightarrow> jxaFindTracks equalsOne spurenGroup 0 []))"

subsection \<open>Nodes and writable elements\<close>

text \<open>
  To compare a forest before and after a write, each element is reduced to its own
  attributes (\<open>stripChildren\<close>); \<open>nodes d es\<close> lists these in pre-order with their
  depths. The depths and attributes in this order determine the forest.

  An element takes the value when it lies within the depth bound, its label matches
  the parameter name, and it is a text field or a slider offered a number.
\<close>

definition stripChildren :: "element \<Rightarrow> element" where
  "stripChildren e = Element (axRole e) (axTitle e) (axDescription e) (axValue e) []"

definition nodes :: "int \<Rightarrow> element list \<Rightarrow> (int \<times> element) list" where
  "nodes d es = map (\<lambda>(k, e). (k, stripChildren e)) (preorder d es)"

definition takesValue ::
  "(ustring \<Rightarrow> ustring option) \<Rightarrow> ustring \<Rightarrow> ustring \<Rightarrow> int \<Rightarrow> int \<times> element \<Rightarrow> bool"
where
  "takesValue floatText pname val maxDepth n =
     (fst n < maxDepth
      \<and> matchesControlName (controlName (snd n)) pname
      \<and> (orEmpty (getRole (snd n)) = ustr ''AXSlider'' \<and> floatText val \<noteq> None
          \<or> orEmpty (getRole (snd n)) = ustr ''AXTextField''))"



text \<open>An element within the depth bound whose label matches the parameter name and
  whose role is writable (a slider or a text field).\<close>

definition writableMatch :: "ustring \<Rightarrow> int \<Rightarrow> int \<times> element \<Rightarrow> bool" where
  "writableMatch pname maxDepth n =
     (fst n < maxDepth
      \<and> matchesControlName (controlName (snd n)) pname
      \<and> (orEmpty (getRole (snd n)) = ustr ''AXSlider''
          \<or> orEmpty (getRole (snd n)) = ustr ''AXTextField''))"


subsection \<open>Track labels\<close>

text \<open>
  The decimal writing of an integer (a minus sign for a negative number, no leading
  zeros), and the label \<open><Prefix> <N> <open>Name<close>\<close> with given quotation marks.
\<close>

fun digitsOf :: "nat \<Rightarrow> ustring" where
  "digitsOf n = (if n < 10 then [0x30 + int n] else digitsOf (n div 10) @ [0x30 + int (n mod 10)])"

definition decimal :: "int \<Rightarrow> ustring" where
  "decimal n = (if n < 0 then 0x2D # digitsOf (nat (- n)) else digitsOf (nat n))"

definition quotedLabel :: "uchar \<Rightarrow> uchar \<Rightarrow> ustring \<Rightarrow> int \<Rightarrow> ustring \<Rightarrow> ustring" where
  "quotedLabel opening closing prefix n nm =
     prefix @ 0x20 # decimal n @ 0x20 # opening # nm @ [closing]"

subsection \<open>Reading and writing plugin parameters\<close>

text \<open>
  \<open>getPluginParameters\<close>: the parameter controls of all windows. The arguments
  \<open>trackIndex\<close> and \<open>slotIndex\<close> are not used by the search.
\<close>

definition printParams :: "PluginParameter list \<Rightarrow> procOutput \<Rightarrow> procOutput" where
  "printParams params out = out\<lparr>stdout := stdout out @ [OutParams params]\<rparr>"

definition getPluginParameters :: "int \<Rightarrow> int \<Rightarrow> logicApp option \<Rightarrow> procOutput" where
  "getPluginParameters trackIndex slotIndex running =
     (case running of
        None \<Rightarrow> printLine (ustr ''[]'') (printError (ustr ''Logic Pro is not running'') noOutput)
      | Some app \<Rightarrow>
     (case mainWindow app of
        None \<Rightarrow> printLine (ustr ''[]'') noOutput
      | Some window \<Rightarrow>
          printParams
            (foldl (\<lambda>params w. findParameters (getChildren w) params 0 8) [] (windows app))
            noOutput))"

text \<open>
  The loop of \<open>setPluginParameter\<close> over the windows: it stops at the first window in
  which \<open>findAndSetParameter\<close> succeeds. The windows are returned as they are after
  the call.
\<close>

fun setInWindows ::
  "(ustring \<Rightarrow> ustring option) \<Rightarrow> element list \<Rightarrow> ustring \<Rightarrow> ustring \<Rightarrow> bool \<times> element list"
where
  "setInWindows floatText [] pname val = (False, [])"
| "setInWindows floatText (Element r t d v children # rest) pname val =
     (case findAndSetParameter floatText children pname val 0 8 of
        (True, children') \<Rightarrow> (True, Element r t d v children' # rest)
      | (False, children') \<Rightarrow>
          (case setInWindows floatText rest pname val of
             (found, rest') \<Rightarrow> (found, Element r t d v children' # rest')))"

definition setPluginParameter ::
  "(ustring \<Rightarrow> ustring option) \<Rightarrow> int \<Rightarrow> int \<Rightarrow> ustring \<Rightarrow> ustring \<Rightarrow> logicApp option
     \<Rightarrow> procOutput \<times> logicApp option"
where
  "setPluginParameter floatText trackIndex slotIndex pname val running =
     (case running of
        None \<Rightarrow>
          (printError (ustr ''Logic Pro not running'')
             (printError (ustr ''Logic Pro is not running'') noOutput), None)
      | Some app \<Rightarrow>
          (case setInWindows floatText (windows app) pname val of
             (True, windows') \<Rightarrow>
               (printLine (ustr ''Parameter set successfully'') noOutput,
                Some (app\<lparr>windows := windows'\<rparr>))
           | (False, windows') \<Rightarrow>
               (printError
                  (ustr ''Parameter '' @ [0x27] @ pname @ [0x27]
                   @ ustr '' not found. Ensure the plugin window is open in Controls view.'')
                  noOutput,
                Some (app\<lparr>windows := windows'\<rparr>))))"

subsection \<open>The debugging commands\<close>

definition checkAccessibility :: "bool \<Rightarrow> procOutput" where
  "checkAccessibility trusted =
     (if trusted then printLine (ustr ''accessibility: granted'') noOutput
      else printLine
             (ustr ''accessibility: denied '' @ [0x2013]
              @ ustr '' please grant access in System Settings '' @ [0x2192] @ ustr '' Privacy ''
              @ [0x2192] @ ustr '' Accessibility'')
             noOutput)"

fun dumpElementInfo :: "element \<Rightarrow> DumpEntry list \<Rightarrow> int \<Rightarrow> int \<Rightarrow> DumpEntry list"
  and dumpChildren :: "element list \<Rightarrow> DumpEntry list \<Rightarrow> int \<Rightarrow> int \<Rightarrow> DumpEntry list"
where
  "dumpElementInfo (Element r t d v children) result depth maxDepth =
     (if depth < maxDepth then
        dumpChildren children
          (result @ [\<lparr>dumpDepth = decimal depth,
                       dumpRole = (case r of None \<Rightarrow> ustr ''unknown'' | Some role \<Rightarrow> role),
                       dumpTitle = orEmpty t, dumpDescription = orEmpty d,
                       dumpValue = orEmpty v\<rparr>])
          depth maxDepth
      else result)"
| "dumpChildren [] result depth maxDepth = result"
| "dumpChildren (child # rest) result depth maxDepth =
     dumpChildren rest (dumpElementInfo child result (depth + 1) maxDepth) depth maxDepth"

definition printDump :: "DumpEntry list \<Rightarrow> procOutput \<Rightarrow> procOutput" where
  "printDump entries out = out\<lparr>stdout := stdout out @ [OutDump entries]\<rparr>"

definition queryElement :: "int \<Rightarrow> logicApp option \<Rightarrow> procOutput" where
  "queryElement maxDepth running =
     (case running of
        None \<Rightarrow> printLine (ustr ''{}'') (printError (ustr ''Logic Pro is not running'') noOutput)
      | Some app \<Rightarrow>
     (case mainWindow app of
        None \<Rightarrow> printLine (ustr ''{}'') noOutput
      | Some window \<Rightarrow> printDump (dumpElementInfo window [] 0 maxDepth) noOutput))"

definition querySpuren :: "int \<Rightarrow> logicApp option \<Rightarrow> procOutput" where
  "querySpuren maxDepth running =
     (case running of
        None \<Rightarrow> printLine (ustr ''{}'') (printError (ustr ''Logic Pro is not running'') noOutput)
      | Some app \<Rightarrow>
     (case mainWindow app of
        None \<Rightarrow> printLine (ustr ''{}'') noOutput
      | Some window \<Rightarrow>
     (case findElementByDescription window (ustr ''Spuren'') 4 of
        Some spuren \<Rightarrow> printDump (dumpElementInfo spuren [] 0 maxDepth) noOutput
      | None \<Rightarrow>
     (case findElementByDescription window (ustr ''Tracks'') 4 of
        Some tracks \<Rightarrow> printDump (dumpElementInfo tracks [] 0 maxDepth) noOutput
      | None \<Rightarrow> printLine (ustr ''[]'') noOutput))))"

subsection \<open>The entry point\<close>

text \<open>
  The top-level code of the helper. \<open>args\<close> are the command line arguments with the
  program name first; \<open>trusted\<close> is the answer of the system to the accessibility
  check. The result is what was written, the exit status (1 after \<open>exit(1)\<close>, 0 when
  the end of the program is reached) and the application after the run.
\<close>

definition printUsage :: "procOutput \<Rightarrow> procOutput" where
  "printUsage out = out\<lparr>stdout := stdout out @ [OutUsage]\<rparr>"

definition depthArgument :: "ustring list \<Rightarrow> int \<Rightarrow> int" where
  "depthArgument args dflt =
     (if length args \<ge> 3 then (case swiftInt (args ! 2) of Some n \<Rightarrow> n | None \<Rightarrow> dflt)
      else dflt)"

definition helperMain ::
  "(ustring \<Rightarrow> ustring option) \<Rightarrow> bool \<Rightarrow> ustring list \<Rightarrow> logicApp option
     \<Rightarrow> (procOutput \<times> int) \<times> logicApp option"
where
  "helperMain floatText trusted args running =
     (if \<not> length args \<ge> 2 then ((printUsage noOutput, 1), running)
      else if args ! 1 = ustr ''check-access'' then ((checkAccessibility trusted, 0), running)
      else if args ! 1 = ustr ''list-tracks'' then ((listTracks running, 0), running)
      else if args ! 1 = ustr ''get-params'' then
        (if length args \<ge> 4 \<and> swiftInt (args ! 2) \<noteq> None \<and> swiftInt (args ! 3) \<noteq> None then
           ((getPluginParameters (the (swiftInt (args ! 2))) (the (swiftInt (args ! 3))) running, 0),
            running)
         else
           ((printError (ustr ''Usage: logic-ax get-params <trackIndex> <slotIndex>'') noOutput, 1),
            running))
      else if args ! 1 = ustr ''set-param'' then
        (if length args \<ge> 6 \<and> swiftInt (args ! 2) \<noteq> None \<and> swiftInt (args ! 3) \<noteq> None then
           (case setPluginParameter floatText (the (swiftInt (args ! 2)))
                   (the (swiftInt (args ! 3))) (args ! 4) (args ! 5) running of
              (out, running') \<Rightarrow> ((out, 0), running'))
         else
           ((printError
               (ustr ''Usage: logic-ax set-param <trackIndex> <slotIndex> <paramName> <value>'')
               noOutput, 1),
            running))
      else if args ! 1 = ustr ''query'' then
        ((queryElement (depthArgument args 6) running, 0), running)
      else if args ! 1 = ustr ''query-spuren'' then
        ((querySpuren (depthArgument args 10) running, 0), running)
      else
        ((printUsage (printError (ustr ''Unknown command: '' @ args ! 1) noOutput), 1), running))"

section \<open>The bridge (src/bridges/accessibility.ts)\<close>

text \<open>
  \<open>execFileAsync\<close> runs an external program. The promise is rejected with an error
  (here its message) when the program cannot be started, is killed at the timeout or
  exits with a status other than 0; otherwise it resolves with the standard output. The
  bridge runs two programs: the Swift helper with arguments, and \<open>osascript\<close> with the
  fallback script. A \<open>system\<close> tells how each invocation ends.
\<close>

datatype execResult = Rejected ustring | Resolved ustring

datatype command = AxHelper "ustring list" | OsascriptJXA

type_synonym system = "command \<Rightarrow> execResult"

definition runAxHelper :: "system \<Rightarrow> ustring list \<Rightarrow> ustring + ustring" where
  "runAxHelper sys args =
     (case sys (AxHelper args) of
        Resolved out \<Rightarrow> Inr (jsTrim out)
      | Rejected msg \<Rightarrow>
          if containsString msg (ustr ''ENOENT'') then
            Inl (ustr ''Swift accessibility helper not found. Run: cd swift-helper && swift build -c release'')
          else Inl (ustr ''Accessibility helper error: '' @ msg))"

definition runJXA :: "system \<Rightarrow> ustring + ustring" where
  "runJXA sys =
     (case sys OsascriptJXA of
        Resolved out \<Rightarrow> Inr (jsTrim out)
      | Rejected msg \<Rightarrow> Inl msg)"

text \<open>
  JSON values. \<open>JSON.parse\<close> is taken as a parameter \<open>parse\<close>: \<open>None\<close> when it throws.
\<close>

datatype json =
  JNull
| JBool bool
| JNumber ustring
| JString ustring
| JArray "json list"
| JObject "(ustring \<times> json) list"

definition listTracksJXA :: "(ustring \<Rightarrow> json option) \<Rightarrow> system \<Rightarrow> ustring + json" where
  "listTracksJXA parse sys =
     (case runJXA sys of
        Inl err \<Rightarrow> Inl err
      | Inr result \<Rightarrow> (case parse result of Some tracks \<Rightarrow> Inr tracks | None \<Rightarrow> Inr (JArray [])))"

text \<open>
  The test \<open>tracks.length > 0\<close> on a parsed value: \<open>None\<close> when reading \<open>length\<close>
  throws (\<open>null\<close>). An array or a string has its length; a number or a boolean has no
  such property and \<open>undefined > 0\<close> is false; an object may carry a member \<open>length\<close>,
  whose comparison with 0 is left to the parameter \<open>gtZero\<close>.
\<close>

definition lengthPositive :: "(json \<Rightarrow> bool) \<Rightarrow> json \<Rightarrow> bool option" where
  "lengthPositive gtZero tracks =
     (case tracks of
        JNull \<Rightarrow> None
      | JBool b \<Rightarrow> Some False
      | JNumber n \<Rightarrow> Some False
      | JString s \<Rightarrow> Some (s \<noteq> [])
      | JArray xs \<Rightarrow> Some (xs \<noteq> [])
      | JObject members \<Rightarrow>
          (case map_of members (ustr ''length'') of
             None \<Rightarrow> Some False
           | Some len \<Rightarrow> Some (gtZero len)))"

text \<open>
  \<open>listTracks\<close> of the bridge (named \<open>listTracksTS\<close> here, the helper has a function of
  the same name). It returns the programs it ran, in order, and its result: the tracks,
  or the message of the error thrown.
\<close>

definition listTracksFallback ::
  "(ustring \<Rightarrow> json option) \<Rightarrow> system \<Rightarrow> command list \<times> (ustring + json)"
where
  "listTracksFallback parse sys =
     ([AxHelper [ustr ''list-tracks''], OsascriptJXA],
      (case listTracksJXA parse sys of
         Inr tracks \<Rightarrow> Inr tracks
       | Inl msg \<Rightarrow>
           Inl (ustr ''Could not list tracks. Ensure Logic Pro is open and Accessibility is granted. Details: ''
                @ msg)))"

definition listTracksTS ::
  "(ustring \<Rightarrow> json option) \<Rightarrow> (json \<Rightarrow> bool) \<Rightarrow> system \<Rightarrow> command list \<times> (ustring + json)"
where
  "listTracksTS parse gtZero sys =
     (case runAxHelper sys [ustr ''list-tracks''] of
        Inl err \<Rightarrow> listTracksFallback parse sys
      | Inr result \<Rightarrow>
          (case parse result of
             None \<Rightarrow> listTracksFallback parse sys
           | Some tracks \<Rightarrow>
               (case lengthPositive gtZero tracks of
                  Some True \<Rightarrow> ([AxHelper [ustr ''list-tracks'']], Inr tracks)
                | Some False \<Rightarrow> listTracksFallback parse sys
                | None \<Rightarrow> listTracksFallback parse sys)))"

text \<open>\<open>setPluginParameter\<close> of the bridge; \<open>String(n)\<close> of an integer is its decimal
  writing.\<close>

definition setPluginParameterTS ::
  "system \<Rightarrow> int \<Rightarrow> int \<Rightarrow> ustring \<Rightarrow> ustring \<Rightarrow> ustring + ustring"
where
  "setPluginParameterTS sys trackIndex slotIndex pname val =
     runAxHelper sys [ustr ''set-param'', decimal trackIndex, decimal slotIndex, pname, val]"

section \<open>The tool plugin_set_parameter (tools/plugins.ts)\<close>

record toolResult =
  contentText :: ustring
  isError :: bool

definition pluginSetParameterHandler ::
  "system \<Rightarrow> int \<Rightarrow> int \<Rightarrow> ustring \<Rightarrow> ustring \<Rightarrow> toolResult"
where
  "pluginSetParameterHandler sys trackIndex slotIndex parameterName val =
     (case setPluginParameterTS sys trackIndex slotIndex parameterName val of
        Inr result \<Rightarrow>
          \<lparr>contentText = ustr ''Parameter '' @ [0x22] @ parameterName @ [0x22] @ ustr '' set to '' @ [0x22]
                   @ val @ [0x22] @ ustr ''. '' @ result,
           isError = False\<rparr>
      | Inl msg \<Rightarrow> \<lparr>contentText = ustr ''Failed to set parameter: '' @ msg, isError = True\<rparr>)"

section \<open>The helper as a program\<close>

text \<open>
  How an invocation of the helper ends for \<open>execFileAsync\<close>: with exit status 0 the
  promise resolves with the text of standard output (each \<open>print\<close> ends its line);
  with another status it is rejected, and the message of the error carries the text of
  standard error. The serialization of a JSON document is the parameter \<open>render\<close>.
\<close>

definition stdoutText :: "(outItem \<Rightarrow> ustring) \<Rightarrow> procOutput \<Rightarrow> ustring" where
  "stdoutText render out =
     concat (map (\<lambda>item. (case item of OutLine s \<Rightarrow> s | _ \<Rightarrow> render item) @ [0x0A]) (stdout out))"

definition stderrText :: "procOutput \<Rightarrow> ustring" where
  "stderrText out = concat (map (\<lambda>line. line @ [0x0A]) (stderr out))"

definition execFile :: "(outItem \<Rightarrow> ustring) \<Rightarrow> procOutput \<times> int \<Rightarrow> execResult" where
  "execFile render run =
     (case run of
        (out, status) \<Rightarrow>
          if status = 0 then Resolved (stdoutText render out)
          else Rejected (ustr ''Command failed: LogicAccessibility'' @ [0x0A] @ stderrText out))"

text \<open>The system in which the helper meets the application \<open>running\<close>; the
  fallback script is not available in it.\<close>

definition helperSystem ::
  "(outItem \<Rightarrow> ustring) \<Rightarrow> (ustring \<Rightarrow> ustring option) \<Rightarrow> bool \<Rightarrow> logicApp option \<Rightarrow> system"
where
  "helperSystem render floatText trusted running cmd =
     (case cmd of
        AxHelper args \<Rightarrow>
          execFile render
            (fst (helperMain floatText trusted (ustr ''LogicAccessibility'' # args) running))
      | OsascriptJXA \<Rightarrow> Rejected (ustr ''spawn osascript ENOENT''))"

chapter \<open>Properties\<close>

section \<open>Facts about the MIDI bridge\<close>

lemma int_and_15: "(k::int) AND 15 = k mod 16"
  using take_bit_eq_mask [of 4 k] by (simp add: take_bit_eq_mod mask_eq_exp_minus_1)

lemma int_and_127: "(k::int) AND 127 = k mod 128"
  using take_bit_eq_mask [of 7 k] by (simp add: take_bit_eq_mod mask_eq_exp_minus_1)

lemma toInt32_mod16: "toInt32 n mod 16 = n mod 16"
proof -
  have d: "(16::int) dvd 2 ^ 32" by simp
  have a: "(n mod 2 ^ 32) mod 16 = n mod 16" using d by (rule mod_mod_cancel)
  have b: "(n mod 2 ^ 32 - 2 ^ 32) mod 16 = n mod 16"
    using a by (metis d mod_diff_right_eq dvd_eq_mod_eq_0 diff_zero)
  show ?thesis unfolding toInt32_def Let_def using a b by presburger
qed

lemma toInt32_mod128: "toInt32 n mod 128 = n mod 128"
proof -
  have d: "(128::int) dvd 2 ^ 32" by simp
  have a: "(n mod 2 ^ 32) mod 128 = n mod 128" using d by (rule mod_mod_cancel)
  have b: "(n mod 2 ^ 32 - 2 ^ 32) mod 128 = n mod 128"
    using a by (metis d mod_diff_right_eq dvd_eq_mod_eq_0 diff_zero)
  show ?thesis unfolding toInt32_def Let_def using a b by presburger
qed

lemma toInt32_small: "0 \<le> n \<Longrightarrow> n < 2 ^ 31 \<Longrightarrow> toInt32 n = n"
  by (simp add: toInt32_def)

lemma jsAnd_0x0f: "jsAnd n 0x0f = n mod 16"
  by (simp add: jsAnd_def toInt32_small int_and_15 toInt32_mod16)

lemma jsAnd_0x7f: "jsAnd n 0x7f = n mod 128"
  by (simp add: jsAnd_def toInt32_small int_and_127 toInt32_mod128)

lemma channel_voice_masked:
  "channel_voice c ((c + ch mod 16) # map (\<lambda>d. d mod 128) ds)"
proof -
  have "0 \<le> ch mod 16" "ch mod 16 < 16" by simp_all
  moreover have "list_all data_byte (map (\<lambda>d. d mod 128) ds)"
    by (induction ds) (simp_all add: data_byte_def)
  ultimately show ?thesis by (simp add: channel_voice_def)
qed

text \<open>
  C10. With the port open, each send primitive hands exactly one message to the port:
  the command nibble plus the channel reduced to 0..15, and every data byte reduced to
  0..127; note-off carries velocity 0. This holds for all integers, in range or not, so
  every message is a well-formed channel-voice message. With the port closed nothing is
  sent and the primitive fails with "MIDI port not open".
\<close>

theorem midi_send_well_formed:
  "sendNoteOn channel note velocity (Some sent)
     = Inr (Some (sent @ [[0x90 + channel mod 16, note mod 128, velocity mod 128]]))
   \<and> sendNoteOff channel note (Some sent)
     = Inr (Some (sent @ [[0x80 + channel mod 16, note mod 128, 0]]))
   \<and> sendCC channel controller val (Some sent)
     = Inr (Some (sent @ [[0xb0 + channel mod 16, controller mod 128, val mod 128]]))
   \<and> sendProgramChange channel program (Some sent)
     = Inr (Some (sent @ [[0xc0 + channel mod 16, program mod 128]]))
   \<and> channel_voice 0x90 [0x90 + channel mod 16, note mod 128, velocity mod 128]
   \<and> channel_voice 0x80 [0x80 + channel mod 16, note mod 128, 0]
   \<and> channel_voice 0xb0 [0xb0 + channel mod 16, controller mod 128, val mod 128]
   \<and> channel_voice 0xc0 [0xc0 + channel mod 16, program mod 128]
   \<and> sendNoteOn channel note velocity None = Inl ''MIDI port not open''
   \<and> sendNoteOff channel note None = Inl ''MIDI port not open''
   \<and> sendCC channel controller val None = Inl ''MIDI port not open''
   \<and> sendProgramChange channel program None = Inl ''MIDI port not open''"
proof -
  have on: "sendNoteOn channel note velocity (Some sent)
     = Inr (Some (sent @ [[0x90 + channel mod 16, note mod 128, velocity mod 128]]))"
    by (simp add: sendNoteOn_def sendMessage_def jsAnd_0x0f jsAnd_0x7f)
  have off: "sendNoteOff channel note (Some sent)
     = Inr (Some (sent @ [[0x80 + channel mod 16, note mod 128, 0]]))"
    by (simp add: sendNoteOff_def sendMessage_def jsAnd_0x0f jsAnd_0x7f)
  have cc: "sendCC channel controller val (Some sent)
     = Inr (Some (sent @ [[0xb0 + channel mod 16, controller mod 128, val mod 128]]))"
    by (simp add: sendCC_def sendMessage_def jsAnd_0x0f jsAnd_0x7f)
  have pc: "sendProgramChange channel program (Some sent)
     = Inr (Some (sent @ [[0xc0 + channel mod 16, program mod 128]]))"
    by (simp add: sendProgramChange_def sendMessage_def jsAnd_0x0f jsAnd_0x7f)
  have w1: "channel_voice 0x90 [0x90 + channel mod 16, note mod 128, velocity mod 128]"
    using channel_voice_masked [of "0x90" channel "[note, velocity]"] by simp
  have w2: "channel_voice 0x80 [0x80 + channel mod 16, note mod 128, 0]"
    using channel_voice_masked [of "0x80" channel "[note, 0]"] by simp
  have w3: "channel_voice 0xb0 [0xb0 + channel mod 16, controller mod 128, val mod 128]"
    using channel_voice_masked [of "0xb0" channel "[controller, val]"] by simp
  have w4: "channel_voice 0xc0 [0xc0 + channel mod 16, program mod 128]"
    using channel_voice_masked [of "0xc0" channel "[program]"] by simp
  have closed: "sendNoteOn channel note velocity None = Inl ''MIDI port not open''"
    "sendNoteOff channel note None = Inl ''MIDI port not open''"
    "sendCC channel controller val None = Inl ''MIDI port not open''"
    "sendProgramChange channel program None = Inl ''MIDI port not open''"
    by (simp_all add: sendNoteOn_def sendNoteOff_def sendCC_def sendProgramChange_def)
  from on off cc pc w1 w2 w3 w4 closed show ?thesis by blast
qed

section \<open>Facts about the plugin catalogue parser\<close>












lemma jsSplit_no_sep: "sep \<notin> set s \<Longrightarrow> jsSplit sep s = [s]"
  by (induction s) auto

lemma set_reSpaces1: "reSpaces1 s = Some r \<Longrightarrow> set r \<subseteq> set s"
  by (auto simp: reSpaces1_def split: list.splits if_splits dest: set_dropWhileD)

lemma set_reWord4: "reWord4 s = Some (m, r) \<Longrightarrow> set r \<subseteq> set s"
  by (auto simp: reWord4_def split: if_splits dest: in_set_dropD)

lemma set_reDash: "reDash s = Some r \<Longrightarrow> 0x2D \<in> set s"
  by (auto simp: reDash_def split: list.splits if_splits)

lemma auvalMatch_needs_dash:
  assumes "0x2D \<notin> set line"
  shows "auvalMatch line = None"
proof (rule ccontr)
  assume "auvalMatch line \<noteq> None"
  then obtain m1 s1 s2 m2 s3 s4 m3 s5 s6 s7 where
    a: "reWord4 (reSpaces0 line) = Some (m1, s1)" "reSpaces1 s1 = Some s2"
       "reWord4 s2 = Some (m2, s3)" "reSpaces1 s3 = Some s4" "reWord4 s4 = Some (m3, s5)"
       "reSpaces1 s5 = Some s6" "reDash s6 = Some s7"
    unfolding auvalMatch_def by (auto split: option.splits prod.splits)
  have "set (reSpaces0 line) \<subseteq> set line"
    by (auto simp: reSpaces0_def dest: set_dropWhileD)
  with a have "set s6 \<subseteq> set line"
    by (meson set_reSpaces1 set_reWord4 subset_trans)
  with set_reDash [OF a(7)] assms show False by auto
qed


lemma foldl_auvalPush_filter:
  "foldl auvalPush acc (filter (\<lambda>l. 0x2D \<in> set l) ls) = foldl auvalPush acc ls"
proof (induction ls arbitrary: acc)
  case Nil then show ?case by simp
next
  case (Cons l ls)
  show ?case
  proof (cases "0x2D \<in> set l")
    case True then show ?thesis by (simp add: Cons.IH)
  next
    case False
    then have "auvalPush acc l = acc" by (simp add: auvalPush_def auvalMatch_needs_dash)
    with False show ?thesis by (simp add: Cons.IH)
  qed
qed

lemma jsSplit_nonempty: "jsSplit sep s \<noteq> []"
  by (induction s) (auto split: list.splits)

lemma jsSplit_append:
  "jsSplit sep (a @ sep # b) = jsSplit sep a @ jsSplit sep b"
proof (induction a)
  case Nil then show ?case by simp
next
  case (Cons c a)
  show ?case
  proof (cases "c = sep")
    case True then show ?thesis using Cons.IH by simp
  next
    case False
    obtain p ps where ps: "jsSplit sep a = p # ps"
      using jsSplit_nonempty [of sep a] by (cases "jsSplit sep a") auto
    with False Cons.IH show ?thesis by simp
  qed
qed













section \<open>Facts about the control-name matcher\<close>





section \<open>Facts about the pre-order of a forest\<close>

lemma preorder_append: "preorder d (xs @ ys) = preorder d xs @ preorder d ys"
proof (induction xs)
  case Nil then show ?case by simp
next
  case (Cons x xs) then show ?case by (cases x) simp
qed

lemma preorder_Cons:
  "preorder d (e # es) = (d, e) # preorder (d + 1) (axChildren e) @ preorder d es"
  by (cases e) simp

lemma set_preorder:
  "set (preorder d es) = (\<Union>e \<in> set es. insert (d, e) (set (preorder (d + 1) (axChildren e))))"
  by (induction es) (auto simp: preorder_Cons)

lemma preorder_depth_ge: "(k, x) \<in> set (preorder d es) \<Longrightarrow> d \<le> k"
proof (induction d es arbitrary: k x rule: preorder.induct)
  case (1 d) then show ?case by simp
next
  case (2 d r t ds v children rest)
  from "2.prems" consider "k = d" | "(k, x) \<in> set (preorder (d + 1) children)"
    | "(k, x) \<in> set (preorder d rest)" by auto
  then show ?case
  proof cases
    case 1 then show ?thesis by simp
  next
    case 2 from "2.IH"(1) [OF this] show ?thesis by simp
  next
    case 3 from "2.IH"(2) [OF this] show ?thesis .
  qed
qed

lemma preorder_shift: "preorder (d + n) es = map (apfst (\<lambda>k. k + n)) (preorder d es)"
proof (induction d es rule: preorder.induct)
  case (1 d) then show ?case by simp
next
  case (2 d r t ds v children rest)
  have e: "d + n + 1 = d + 1 + n" by simp
  have "preorder (d + n + 1) children = map (apfst (\<lambda>k. k + n)) (preorder (d + 1) children)"
    unfolding e by (rule "2.IH"(1))
  with "2.IH"(2) show ?case by simp
qed

lemma findElementByDescriptionIn_None:
  "findElementByDescriptionIn es description m = None
     \<longleftrightarrow> (\<forall>c \<in> set es. findElementByDescription c description m = None)"
  by (induction es) (auto split: option.splits)

lemma find_None_set: "find P xs = None \<longleftrightarrow> (\<forall>x \<in> set xs. \<not> P x)"
  by (induction xs) auto

lemma findElementByDescription_None:
  "findElementByDescription e description m = None
     \<longleftrightarrow> (\<forall>(k, x) \<in> set (preorder 0 (axChildren e)).
            k \<le> max m 0 \<longrightarrow> orEmpty (getDescription x) \<noteq> description)"
proof (induction e arbitrary: m)
  case (Element r t ds v cs)
  have ih: "\<And>c m. c \<in> set cs \<Longrightarrow>
      findElementByDescription c description m = None
        \<longleftrightarrow> (\<forall>(k, x) \<in> set (preorder 0 (axChildren c)).
               k \<le> max m 0 \<longrightarrow> orEmpty (getDescription x) \<noteq> description)"
    using Element.IH by blast
  have sh: "\<And>c. set (preorder 1 (axChildren c))
               = (\<lambda>(k, x). (k + 1, x)) ` set (preorder 0 (axChildren c))"
    using preorder_shift [of 0 1] by (auto simp: apfst_def map_prod_def image_iff)
  have ge: "\<And>c k x. (k, x) \<in> set (preorder 0 (axChildren c)) \<Longrightarrow> 0 \<le> k"
    by (rule preorder_depth_ge)
  have lhs: "findElementByDescription (Element r t ds v cs) description m = None
      \<longleftrightarrow> (\<forall>c \<in> set cs. orEmpty (getDescription c) \<noteq> description)
          \<and> (m > 0 \<longrightarrow> (\<forall>c \<in> set cs. findElementByDescription c description (m - 1) = None))"
  proof (cases "find (\<lambda>child. orEmpty (getDescription child) = description) cs")
    case None
    then show ?thesis
      by (simp add: findElementByDescriptionIn_None) (simp add: find_None_set)
  next
    case (Some c)
    then have "\<not> (\<forall>c \<in> set cs. orEmpty (getDescription c) \<noteq> description)"
      using find_None_set [of "\<lambda>child. orEmpty (getDescription child) = description" cs] by simp
    with Some show ?thesis by simp
  qed
  have rhs: "(\<forall>(k, x) \<in> set (preorder 0 cs). k \<le> max m 0 \<longrightarrow> orEmpty (getDescription x) \<noteq> description)
      \<longleftrightarrow> (\<forall>c \<in> set cs. orEmpty (getDescription c) \<noteq> description)
          \<and> (\<forall>c \<in> set cs. \<forall>(k, x) \<in> set (preorder 0 (axChildren c)).
                k + 1 \<le> max m 0 \<longrightarrow> orEmpty (getDescription x) \<noteq> description)"
    unfolding set_preorder [of 0 cs] by (auto simp: sh)
  show ?case
  proof (cases "m > 0")
    case True
    then have "\<And>k. k + 1 \<le> max m 0 \<longleftrightarrow> k \<le> max (m - 1) 0" by auto
    with True lhs rhs ih show ?thesis by simp
  next
    case False
    then have "\<And>c k x. (k, x) \<in> set (preorder 0 (axChildren c)) \<Longrightarrow> \<not> k + 1 \<le> max m 0"
      using ge by fastforce
    with False lhs rhs show ?thesis by auto
  qed
qed

section \<open>Facts about listing the tracks\<close>

text \<open>
  C8. The search for the track container looks at the elements up to five levels below
  the main window (depths 0 to 4 counted from the window's children). When none of them
  is described as "Spuren" or "Tracks", both searches fail, and \<open>listTracks\<close> then
  prints the empty sequence \<open>[]\<close> on standard output (with a diagnostic on standard
  error) and ends normally: the reader gets the empty track sequence.
\<close>

theorem listTracks_without_container:
  "((findElementByDescription window (ustr ''Spuren'') 4 = None
       \<and> findElementByDescription window (ustr ''Tracks'') 4 = None)
     = (\<forall>(k, x) \<in> set (preorder 0 (getChildren window)).
          k \<le> 4 \<longrightarrow> orEmpty (getDescription x) \<noteq> ustr ''Spuren''
                    \<and> orEmpty (getDescription x) \<noteq> ustr ''Tracks''))
   \<and> (mainWindow app = Some window
        \<and> findElementByDescription window (ustr ''Spuren'') 4 = None
        \<and> findElementByDescription window (ustr ''Tracks'') 4 = None
      \<longrightarrow> listTracks (Some app)
            = \<lparr>stdout = [OutLine (ustr ''[]'')],
               stderr = [ustr ''[logic-ax] Could not find tracks area in Logic Pro window'']\<rparr>
          \<and> printedTracks (listTracks (Some app)) = Some [])"
proof (intro conjI impI)
  show "(findElementByDescription window (ustr ''Spuren'') 4 = None
       \<and> findElementByDescription window (ustr ''Tracks'') 4 = None)
     = (\<forall>(k, x) \<in> set (preorder 0 (getChildren window)).
          k \<le> 4 \<longrightarrow> orEmpty (getDescription x) \<noteq> ustr ''Spuren''
                    \<and> orEmpty (getDescription x) \<noteq> ustr ''Tracks'')"
    unfolding findElementByDescription_None getChildren_def by auto
next
  assume h: "mainWindow app = Some window
        \<and> findElementByDescription window (ustr ''Spuren'') 4 = None
        \<and> findElementByDescription window (ustr ''Tracks'') 4 = None"
  then show l: "listTracks (Some app)
            = \<lparr>stdout = [OutLine (ustr ''[]'')],
               stderr = [ustr ''[logic-ax] Could not find tracks area in Logic Pro window'']\<rparr>"
    by (simp add: listTracks_def printLine_def printError_def noOutput_def ustr_def)
  show "printedTracks (listTracks (Some app)) = Some []"
    unfolding l by (simp add: printedTracks_def)
qed

text \<open>
  C8, an instance: a main window whose only group is the mixer, and whose "Tracks" group
  lies six levels down, below the bound of the search.
\<close>

theorem listTracks_without_container_witness:
  "listTracks (Some \<lparr>mainWindow = Some
       (Element (Some (ustr ''AXWindow'')) (Some (ustr ''Untitled'')) None None
         [Element (Some (ustr ''AXGroup'')) None (Some (ustr ''Mixer'')) None
           [Element (Some (ustr ''AXGroup'')) None None None
             [Element (Some (ustr ''AXGroup'')) None None None
               [Element (Some (ustr ''AXGroup'')) None None None
                 [Element (Some (ustr ''AXGroup'')) None None None
                   [Element (Some (ustr ''AXGroup'')) None (Some (ustr ''Tracks'')) None []]]]]]]),
       windows = []\<rparr>)
     = \<lparr>stdout = [OutLine (ustr ''[]'')],
        stderr = [ustr ''[logic-ax] Could not find tracks area in Logic Pro window'']\<rparr>
   \<and> printedTracks (listTracks (Some \<lparr>mainWindow = Some
       (Element (Some (ustr ''AXWindow'')) (Some (ustr ''Untitled'')) None None
         [Element (Some (ustr ''AXGroup'')) None (Some (ustr ''Mixer'')) None
           [Element (Some (ustr ''AXGroup'')) None None None
             [Element (Some (ustr ''AXGroup'')) None None None
               [Element (Some (ustr ''AXGroup'')) None None None
                 [Element (Some (ustr ''AXGroup'')) None None None
                   [Element (Some (ustr ''AXGroup'')) None (Some (ustr ''Tracks'')) None []]]]]]]),
       windows = []\<rparr>)) = Some []"
proof -
  let ?w = "Element (Some (ustr ''AXWindow'')) (Some (ustr ''Untitled'')) None None
         [Element (Some (ustr ''AXGroup'')) None (Some (ustr ''Mixer'')) None
           [Element (Some (ustr ''AXGroup'')) None None None
             [Element (Some (ustr ''AXGroup'')) None None None
               [Element (Some (ustr ''AXGroup'')) None None None
                 [Element (Some (ustr ''AXGroup'')) None None None
                   [Element (Some (ustr ''AXGroup'')) None (Some (ustr ''Tracks'')) None []]]]]]]"
  have s: "findElementByDescription ?w (ustr ''Spuren'') 4 = None" by code_simp
  have t: "findElementByDescription ?w (ustr ''Tracks'') 4 = None" by code_simp
  have m: "mainWindow \<lparr>mainWindow = Some ?w, windows = []\<rparr> = Some ?w" by simp
  from listTracks_without_container [THEN conjunct2, THEN mp, OF conjI [OF m conjI [OF s t]]]
  show ?thesis .
qed

section \<open>Facts about the collecting walks\<close>

lemma preorder_beyond: "m \<le> d \<Longrightarrow> filter (\<lambda>(k, e). k < m \<and> P e) (preorder d es) = []"
  by (auto simp: filter_empty_conv dest: preorder_depth_ge)

lemma collect_preorder:
  "collectTrackElements es tracks d m
     = foldl (\<lambda>ts e. ts @ [trackEntry ts e]) tracks
         (map snd (filter (\<lambda>(k, e). k < m \<and> isTrackElement e) (preorder d es)))"
  "d < m \<Longrightarrow> collectTrackLoop es tracks d m
     = foldl (\<lambda>ts e. ts @ [trackEntry ts e]) tracks
         (map snd (filter (\<lambda>(k, e). k < m \<and> isTrackElement e) (preorder d es)))"
proof (induction es tracks d m and es tracks d m rule: collectTrackElements_collectTrackLoop.induct)
  case (1 elements tracks depth maxDepth)
  show ?case
  proof (cases "depth < maxDepth")
    case True
    with 1 show ?thesis by simp
  next
    case False
    then have "maxDepth \<le> depth" by simp
    from preorder_beyond [OF this] False show ?thesis by simp
  qed
next
  case (2 tracks depth maxDepth)
  then show ?case by simp
next
  case (3 r t d v children rest tracks depth maxDepth)
  let ?e = "Element r t d v children"
  let ?push = "\<lambda>ts e. ts @ [trackEntry ts e]"
  let ?sel = "\<lambda>xs. map snd (filter (\<lambda>(k, e). k < maxDepth \<and> isTrackElement e) xs)"
  define tracks1 where "tracks1 = (if isTrackElement ?e then tracks @ [trackEntry tracks ?e] else tracks)"
  define tracks2 where "tracks2 = (if children \<noteq> []
                     then collectTrackElements children tracks1 (depth + 1) maxDepth
                     else tracks1)"
  have t1: "tracks1 = foldl ?push tracks (?sel [(depth, ?e)])"
    using "3.prems" by (simp add: tracks1_def)
  have t2: "tracks2 = foldl ?push tracks1 (?sel (preorder (depth + 1) children))"
  proof (cases "children = []")
    case True then show ?thesis by (simp add: tracks2_def)
  next
    case False
    with "3.IH"(1) [OF refl tracks1_def False] show ?thesis
      by (simp add: tracks2_def)
  qed
  have "collectTrackLoop (?e # rest) tracks depth maxDepth = collectTrackLoop rest tracks2 depth maxDepth"
    by (simp add: tracks1_def tracks2_def Let_def)
  also have "\<dots> = foldl ?push tracks2 (?sel (preorder depth rest))"
    using "3.IH"(2) [OF refl tracks1_def tracks2_def "3.prems"] .
  finally show ?case
    by (simp add: t1 t2)
qed


lemma findPluginNames_preorder:
  "findPluginNames es
     = map (\<lambda>e. orEmpty (getTitle e)) (filter isPluginButton (map snd (preorder d es)))"
proof (induction es arbitrary: d rule: findPluginNames.induct)
  case 1 then show ?case by simp
next
  case (2 r t ds v children rest)
  have c: "(if children \<noteq> [] then findPluginNames children else [])
      = map (\<lambda>e. orEmpty (getTitle e)) (filter isPluginButton (map snd (preorder (d + 1) children)))"
  proof (cases "children = []")
    case True then show ?thesis by simp
  next
    case False
    with "2.IH"(1) [OF refl refl False, of "d + 1"] show ?thesis by simp
  qed
  have r: "findPluginNames rest
      = map (\<lambda>e. orEmpty (getTitle e)) (filter isPluginButton (map snd (preorder d rest)))"
    using "2.IH"(2) [OF refl refl] .
  have h: "(if orEmpty r = ustr ''AXButton'' \<and> orEmpty t \<noteq> [] \<and> orEmpty t \<noteq> ustr ''M''
                \<and> orEmpty t \<noteq> ustr ''S'' \<and> orEmpty t \<noteq> ustr ''R''
            then [orEmpty t] else [])
      = map (\<lambda>e. orEmpty (getTitle e)) (filter isPluginButton [Element r t ds v children])"
    by (simp add: isPluginButton_def getRole_def getTitle_def)
  have "findPluginNames (Element r t ds v children # rest)
      = map (\<lambda>e. orEmpty (getTitle e)) (filter isPluginButton [Element r t ds v children])
        @ map (\<lambda>e. orEmpty (getTitle e)) (filter isPluginButton (map snd (preorder (d + 1) children)))
        @ map (\<lambda>e. orEmpty (getTitle e)) (filter isPluginButton (map snd (preorder d rest)))"
    unfolding findPluginNames.simps Let_def c r h ..
  then show ?case by simp
qed











section \<open>Facts about the plugin lists\<close>

lemma map_snd_preorder: "map snd (preorder d es) = map snd (preorder 0 es)"
  using preorder_shift [of 0 d es] by (simp add: comp_def)

lemma plugins_foldl:
  "map plugins (foldl (\<lambda>ts e. ts @ [trackEntry ts e]) tracks es)
     = map plugins tracks @ map (\<lambda>e. findPluginNames (getChildren e)) es"
proof (induction es arbitrary: tracks)
  case Nil then show ?case by simp
next
  case (Cons e es)
  have "plugins (trackEntry tracks e) = findPluginNames (getChildren e)"
    by (simp add: trackEntry_def Let_def)
  with Cons.IH [of "tracks @ [trackEntry tracks e]"] show ?case by simp
qed

lemma subtree_buttons:
  assumes "isTrackElement e"
  shows "map (\<lambda>b. orEmpty (getTitle b)) (filter isPluginButton (map snd (preorder 0 [e])))
           = findPluginNames (getChildren e)"
proof -
  have nb: "\<not> isPluginButton e"
    using assms by (auto simp: isTrackElement_def isPluginButton_def ustr_def)
  have "map snd (preorder 0 [e]) = e # map snd (preorder 0 (getChildren e))"
    using map_snd_preorder [of "0 + 1" "axChildren e"]
    by (simp add: preorder_Cons getChildren_def)
  with nb show ?thesis
    by (simp add: findPluginNames_preorder [of _ 0])
qed

lemma jxaFindTracks_plugins:
  "list_all (\<lambda>t. jxPlugins t = []) tracks
     \<Longrightarrow> list_all (\<lambda>t. jxPlugins t = []) (jxaFindTracks equalsOne e depth tracks)"
  "list_all (\<lambda>t. jxPlugins t = []) tracks
     \<Longrightarrow> list_all (\<lambda>t. jxPlugins t = []) (jxaFindTracksLoop equalsOne es depth tracks)"
proof (induction equalsOne e depth tracks and equalsOne es depth tracks
    rule: jxaFindTracks_jxaFindTracksLoop.induct)
  case (1 equalsOne r t d v uiElems depth tracks)
  then show ?case by simp
next
  case (2 equalsOne depth tracks)
  then show ?case by simp
next
  case (3 equalsOne el rest depth tracks)
  define tracks1 where "tracks1 = (if jxaIsTrack el then tracks @ [jxaTrackEntry equalsOne tracks el]
                     else tracks)"
  define tracks2 where "tracks2 = jxaFindTracks equalsOne el (depth + 1) tracks1"
  have "jxPlugins (jxaTrackEntry equalsOne tracks el) = []"
    by (simp add: jxaTrackEntry_def Let_def)
  with "3.prems" have "list_all (\<lambda>t. jxPlugins t = []) tracks1"
    by (simp add: tracks1_def)
  from "3.IH"(1) [OF tracks1_def this] have "list_all (\<lambda>t. jxPlugins t = []) tracks2"
    by (simp add: tracks2_def)
  from "3.IH"(2) [OF tracks1_def tracks2_def this] show ?case
    by (simp add: tracks1_def tracks2_def Let_def del: jxaFindTracks.simps)
qed

text \<open>
  C6 (amended). In the Swift helper the plugins of every track collected are the titles,
  in pre-order, of the buttons of the track element's whole subtree that have a non-empty
  title other than "M", "S" and "R"; this scan has no depth bound. The fallback script
  does not look for plugins: every track it returns has the empty list.
\<close>

theorem plugins_of_tracks:
  "map plugins (collectTrackElements elements tracks depth maxDepth)
     = map plugins tracks
       @ map (\<lambda>e. map (\<lambda>b. orEmpty (getTitle b))
                     (filter isPluginButton (map snd (preorder 0 [e]))))
           (map snd (filter (\<lambda>(k, e). k < maxDepth \<and> isTrackElement e)
                       (preorder depth elements)))
   \<and> map plugins (extractTracks spurenGroup)
     = map (\<lambda>e. map (\<lambda>b. orEmpty (getTitle b))
                     (filter isPluginButton (map snd (preorder 0 [e]))))
           (map snd (filter (\<lambda>(k, e). k < 12 \<and> isTrackElement e)
                       (preorder 0 (getChildren spurenGroup))))
   \<and> list_all (\<lambda>t. jxPlugins t = []) (jxaScript equalsOne win)"
proof -
  have a: "map plugins (collectTrackElements es ts d m)
     = map plugins ts
       @ map (\<lambda>e. map (\<lambda>b. orEmpty (getTitle b))
                     (filter isPluginButton (map snd (preorder 0 [e]))))
           (map snd (filter (\<lambda>(k, e). k < m \<and> isTrackElement e) (preorder d es)))"
    for es ts d m
  proof -
    let ?sel = "map snd (filter (\<lambda>(k, e). k < m \<and> isTrackElement e) (preorder d es))"
    have tr: "\<And>e. e \<in> set ?sel \<Longrightarrow> isTrackElement e" by auto
    have "map (\<lambda>e. findPluginNames (getChildren e)) ?sel
        = map (\<lambda>e. map (\<lambda>b. orEmpty (getTitle b))
                     (filter isPluginButton (map snd (preorder 0 [e])))) ?sel"
      by (rule map_cong [OF refl]) (simp only: subtree_buttons [OF tr])
    then show ?thesis
      unfolding collect_preorder(1) plugins_foldl by simp
  qed
  have b: "list_all (\<lambda>t. jxPlugins t = []) (jxaScript equalsOne win)"
    by (auto simp: jxaScript_def intro: jxaFindTracks_plugins(1) split: option.splits)
  from a [of elements tracks depth maxDepth] a [of "getChildren spurenGroup" "[]" 0 12] b
  show ?thesis by (simp add: extractTracks_def)
qed

text \<open>
  C6 as stated fails for the fallback script: for a window whose track "Bass" carries the
  buttons "M" and "Compressor", the Swift helper lists the plugin "Compressor" and the
  script lists none.
\<close>

theorem jxa_plugins_counterexample:
  "map plugins (extractTracks
      (Element (Some (ustr ''AXGroup'')) None (Some (ustr ''Tracks'')) None
        [Element (Some (ustr ''AXLayoutItem'')) None
           (Some (ustr ''Track 1 '' @ [0x22] @ ustr ''Bass'' @ [0x22])) None
           [Element (Some (ustr ''AXButton'')) (Some (ustr ''M'')) None None [],
            Element (Some (ustr ''AXButton'')) (Some (ustr ''Compressor'')) None None []]]))
     = [[ustr ''Compressor'']]
   \<and> map jxPlugins (jxaScript (\<lambda>s. s = ustr ''1'')
      (Some (Element (Some (ustr ''AXWindow'')) None None None
        [Element (Some (ustr ''AXGroup'')) None (Some (ustr ''Tracks'')) None
          [Element (Some (ustr ''AXLayoutItem'')) None
             (Some (ustr ''Track 1 '' @ [0x22] @ ustr ''Bass'' @ [0x22])) None
             [Element (Some (ustr ''AXButton'')) (Some (ustr ''M'')) None None [],
              Element (Some (ustr ''AXButton'')) (Some (ustr ''Compressor'')) None None []]]])))
     = [[]]"
  by code_simp

section \<open>Facts about find-and-mutate\<close>

lemma trySetParameter_Some_iff:
  "trySetParameter floatText e pname val \<noteq> None
     \<longleftrightarrow> matchesControlName (controlName e) pname
         \<and> (orEmpty (getRole e) = ustr ''AXSlider'' \<and> floatText val \<noteq> None
             \<or> orEmpty (getRole e) = ustr ''AXTextField'')"
  by (auto simp: trySetParameter_def Let_def ustr_def split: option.splits)


lemma takesValue_iff:
  "takesValue floatText pname val m (k, e)
     \<longleftrightarrow> k < m \<and> trySetParameter floatText e pname val \<noteq> None"
  using trySetParameter_Some_iff [of floatText e pname val] by (auto simp: takesValue_def)

lemma findAndSet_none:
  "\<forall>n \<in> set (preorder d es). \<not> takesValue floatText pname val m n
     \<Longrightarrow> findAndSetParameter floatText es pname val d m = (False, es)"
  "\<forall>n \<in> set (preorder d es). \<not> takesValue floatText pname val m n \<Longrightarrow> d < m
     \<Longrightarrow> findAndSetLoop floatText es pname val d m = (False, es)"
proof (induction floatText es pname val d m and floatText es pname val d m
    rule: findAndSetParameter_findAndSetLoop.induct)
  case (1 floatText elements pname val depth maxDepth)
  then show ?case by simp
next
  case (2 floatText pname val depth maxDepth)
  then show ?case by simp
next
  case (3 floatText r t d v children rest pname val depth maxDepth)
  let ?e = "Element r t d v children"
  from "3.prems" have no: "trySetParameter floatText ?e pname val = None"
    by (auto simp: takesValue_iff)
  have c: "(if children \<noteq> []
            then findAndSetParameter floatText children pname val (depth + 1) maxDepth
            else (False, children)) = (False, children)"
  proof (cases "children = []")
    case True then show ?thesis by simp
  next
    case False
    have "\<forall>n \<in> set (preorder (depth + 1) children). \<not> takesValue floatText pname val maxDepth n"
      using "3.prems"(1) by simp
    from "3.IH"(1) [OF no False this] False show ?thesis by simp
  qed
  have "\<forall>n \<in> set (preorder depth rest). \<not> takesValue floatText pname val maxDepth n"
    using "3.prems"(1) by simp
  from "3.IH"(2) [OF no c [symmetric] refl this "3.prems"(2)]
  have r: "findAndSetLoop floatText rest pname val depth maxDepth = (False, rest)" by simp
  show ?case
    unfolding findAndSetLoop.simps no c r by simp
qed

lemma nodes_Nil: "nodes d [] = []"
  by (simp add: nodes_def)








section \<open>Facts about the label parsers\<close>

declare digitsOf.simps [simp del]

lemma decimalValue_snoc: "decimalValue (ds @ [d]) = 10 * decimalValue ds + (d - 0x30)"
  by (simp add: decimalValue_def)

lemma digitsOf_digits: "list_all isDigit (digitsOf n)"
proof (induction n rule: digitsOf.induct)
  case (1 n)
  show ?case
  proof (cases "n < 10")
    case True then show ?thesis by (subst digitsOf.simps) (simp add: isDigit_def)
  next
    case False
    have "n mod 10 < 10" by simp
    then have "isDigit (0x30 + int (n mod 10))" unfolding isDigit_def by linarith
    with False "1.IH" show ?thesis by (subst digitsOf.simps) simp
  qed
qed

lemma digitsOf_nonempty: "digitsOf n \<noteq> []"
  by (subst digitsOf.simps) simp

lemma digitsOf_value: "decimalValue (digitsOf n) = int n"
proof (induction n rule: digitsOf.induct)
  case (1 n)
  show ?case
  proof (cases "n < 10")
    case True then show ?thesis by (subst digitsOf.simps) (simp add: decimalValue_def)
  next
    case False
    have "int n = 10 * int (n div 10) + int (n mod 10)" by presburger
    with False "1.IH" show ?thesis
      by (subst digitsOf.simps) (simp add: decimalValue_snoc)
  qed
qed

lemma digit_chars: "isDigit c \<Longrightarrow> c \<noteq> 0x20 \<and> c \<noteq> 0x22 \<and> c \<noteq> 0x201E \<and> c \<noteq> 0x2D \<and> c \<noteq> 0x2B
    \<and> \<not> isJsWhiteSpace c"
  by (auto simp: isDigit_def isJsWhiteSpace_def isLineTerminator_def)

lemma decimal_chars:
  assumes "c \<in> set (decimal n)"
  shows "c \<noteq> 0x20 \<and> c \<noteq> 0x22 \<and> c \<noteq> 0x201E"
proof -
  from assms have "c = 0x2D \<or> c \<in> set (digitsOf (nat (- n))) \<or> c \<in> set (digitsOf (nat n))"
    by (auto simp: decimal_def split: if_splits)
  moreover have "\<And>m. c \<in> set (digitsOf m) \<Longrightarrow> isDigit c"
    using digitsOf_digits by (auto simp: list_all_iff)
  ultimately show ?thesis using digit_chars [of c] by auto
qed

lemma decimal_nonempty: "decimal n \<noteq> []"
  by (simp add: decimal_def digitsOf_nonempty)

lemma swiftInt_decimal:
  assumes "IntMin \<le> n" "n \<le> IntMax"
  shows "swiftInt (decimal n) = Some n"
proof (cases "n < 0")
  case True
  then have v: "decimalValue (digitsOf (nat (- n))) = - n" by (simp add: digitsOf_value)
  show ?thesis
    using True assms(1)
    by (simp add: decimal_def swiftInt_def digitsOf_nonempty digitsOf_digits v)
next
  case False
  then have v: "decimalValue (digitsOf (nat n)) = n" by (simp add: digitsOf_value)
  obtain c cs where cs: "digitsOf (nat n) = c # cs"
    using digitsOf_nonempty [of "nat n"] by (cases "digitsOf (nat n)") auto
  have "isDigit c" using digitsOf_digits [of "nat n"] cs by simp
  then have c: "c \<noteq> 0x2D" "c \<noteq> 0x2B" using digit_chars by auto
  have all: "list_all isDigit (c # cs)" using digitsOf_digits [of "nat n"] cs by simp
  have val: "decimalValue (c # cs) = n" using v cs by simp
  show ?thesis
    using False assms(2) c all val
    by (simp add: decimal_def swiftInt_def cs)
qed

lemma jsParseInt_decimal: "jsParseInt (decimal n) = Some n"
proof -
  define ds where "ds = (if n < 0 then digitsOf (nat (- n)) else digitsOf (nat n))"
  have all: "list_all isDigit ds" by (simp add: ds_def digitsOf_digits)
  have ne: "ds \<noteq> []" by (simp add: ds_def digitsOf_nonempty)
  obtain c cs where cs: "ds = c # cs" using ne by (cases ds) auto
  have dc: "isDigit c" using all cs by simp
  have val: "decimalValue ds = \<bar>n\<bar>" by (simp add: ds_def digitsOf_value)
  have nohex: "\<not> hasPrefix ds (ustr ''0x'')" "\<not> hasPrefix ds (ustr ''0X'')"
  proof -
    have sub: "\<And>p. hasPrefix ds p \<Longrightarrow> set p \<subseteq> set ds"
      unfolding hasPrefix_def by (metis set_take_subset)
    have nd: "\<not> isDigit 0x78" "\<not> isDigit 0x58" by (simp_all add: isDigit_def)
    show "\<not> hasPrefix ds (ustr ''0x'')"
    proof
      assume "hasPrefix ds (ustr ''0x'')"
      from sub [OF this] have "0x78 \<in> set ds" by (simp add: ustr_def)
      with all nd show False by (auto simp: list_all_iff)
    qed
    show "\<not> hasPrefix ds (ustr ''0X'')"
    proof
      assume "hasPrefix ds (ustr ''0X'')"
      from sub [OF this] have "0x58 \<in> set ds" by (simp add: ustr_def)
      with all nd show False by (auto simp: list_all_iff)
    qed
  qed
  have tw: "takeWhile isDigit ds = ds" using all by (simp add: list_all_iff)
  show ?thesis
  proof (cases "n < 0")
    case True
    then have d: "decimal n = 0x2D # ds" by (simp add: decimal_def ds_def)
    have "\<not> isJsWhiteSpace 0x2D" by (simp add: isJsWhiteSpace_def isLineTerminator_def)
    with True show ?thesis
      unfolding d jsParseInt_def by (simp add: Let_def nohex tw ne val)
  next
    case False
    then have d: "decimal n = c # cs" using cs by (simp add: decimal_def ds_def)
    have "\<not> isJsWhiteSpace c" "c \<noteq> 0x2D" "c \<noteq> 0x2B" using digit_chars [OF dc] by auto
    with False show ?thesis
      unfolding d jsParseInt_def using nohex tw ne val unfolding cs by (simp add: Let_def)
  qed
qed

lemma swiftSplitFrom_token:
  "sep \<notin> set tok \<Longrightarrow> swiftSplitFrom sep k cur (tok @ rest) = swiftSplitFrom sep k (cur @ tok) rest"
  by (induction tok arbitrary: cur) auto

lemma swiftSplitFrom_piece:
  assumes "sep \<notin> set tok" "tok \<noteq> []" "k \<noteq> 1"
  shows "swiftSplitFrom sep k [] (tok @ sep # rest) = tok # swiftSplitFrom sep (k - 1) [] rest"
  using assms by (simp add: swiftSplitFrom_token)

lemma swiftSplit_two_tokens:
  assumes "0x20 \<notin> set a" "a \<noteq> []" "0x20 \<notin> set b" "b \<noteq> []"
  shows "swiftSplit 0x20 IntMax (a @ 0x20 # b @ 0x20 # rest)
           = a # b # swiftSplitFrom 0x20 (IntMax - 2) [] rest"
proof -
  have k: "IntMax \<noteq> 0" "IntMax \<noteq> 1" "IntMax - 1 \<noteq> 1" "IntMax - 1 - 1 = IntMax - 2"
    by (simp_all add: IntMax_def)
  have "swiftSplit 0x20 IntMax (a @ 0x20 # b @ 0x20 # rest)
          = swiftSplitFrom 0x20 IntMax [] (a @ 0x20 # b @ 0x20 # rest)"
    using assms(2) k(1) by (simp add: swiftSplit_def)
  also have "\<dots> = a # swiftSplitFrom 0x20 (IntMax - 1) [] (b @ 0x20 # rest)"
    using assms(1,2) k(2) by (rule swiftSplitFrom_piece)
  also have "swiftSplitFrom 0x20 (IntMax - 1) [] (b @ 0x20 # rest)
          = b # swiftSplitFrom 0x20 (IntMax - 1 - 1) [] rest"
    using assms(3,4) k(3) by (rule swiftSplitFrom_piece)
  finally show ?thesis by (simp add: k(4))
qed

lemma afterFirst_found: "c \<notin> set a \<Longrightarrow> afterFirst c (a @ c # b) = Some b"
  by (induction a) auto

lemma afterFirst_absent: "c \<notin> set s \<Longrightarrow> afterFirst c s = None"
  by (induction s) auto

lemma beforeFirst_found: "c \<notin> set a \<Longrightarrow> beforeFirst c (a @ c # b) = Some a"
  by (induction a) auto

lemma beforeLast_end: "beforeLast c (a @ [c]) = Some a"
  by (simp add: beforeLast_def)

lemma extractTrackNumber_label:
  assumes "prefix \<noteq> []" "0x20 \<notin> set prefix" "IntMin \<le> n" "n \<le> IntMax"
  shows "extractTrackNumber (quotedLabel opening closing prefix n nm) = n"
proof -
  have d: "0x20 \<notin> set (decimal n)" using decimal_chars [of "0x20" n] by auto
  have "swiftSplit 0x20 IntMax (prefix @ 0x20 # decimal n @ 0x20 # opening # nm @ [closing])
      = prefix # decimal n # swiftSplitFrom 0x20 (IntMax - 2) [] (opening # nm @ [closing])"
    using assms(2,1) d decimal_nonempty by (rule swiftSplit_two_tokens)
  then show ?thesis
    by (simp add: extractTrackNumber_def quotedLabel_def Let_def swiftInt_decimal [OF assms(3,4)])
qed

lemma jxaTrackNumber_label:
  assumes "0x20 \<notin> set prefix"
  shows "jxaTrackNumber (quotedLabel opening closing prefix n nm) = Some n"
proof -
  have d: "0x20 \<notin> set (decimal n)" using decimal_chars [of "0x20" n] by auto
  have "jsSplit 0x20 (prefix @ 0x20 # decimal n @ 0x20 # opening # nm @ [closing])
      = prefix # decimal n # jsSplit 0x20 (opening # nm @ [closing])"
    using assms d by (simp add: jsSplit_append jsSplit_no_sep)
  then show ?thesis
    by (simp add: jxaTrackNumber_def quotedLabel_def Let_def jsParseInt_decimal)
qed

lemma label_opening:
  assumes "q \<notin> set prefix" "q \<noteq> 0x20" "q \<in> {0x22, 0x201E}"
  shows "afterFirst q (quotedLabel q closing prefix n nm) = Some (nm @ [closing])"
proof -
  have "q \<notin> set (decimal n)" using decimal_chars [of q n] assms(3) by auto
  with assms(1,2) have "q \<notin> set (prefix @ 0x20 # decimal n @ [0x20])" by simp
  from afterFirst_found [OF this, of "nm @ [closing]"] show ?thesis
    by (simp add: quotedLabel_def)
qed

lemma straight_label_no_low_quote:
  assumes "0x201E \<notin> set prefix" "0x201E \<notin> set nm"
  shows "afterFirst 0x201E (quotedLabel 0x22 0x22 prefix n nm) = None"
proof -
  have "0x201E \<notin> set (decimal n)" using decimal_chars [of "0x201E" n] by auto
  with assms show ?thesis by (intro afterFirst_absent) (simp add: quotedLabel_def)
qed

lemma filter_quotes:
  assumes "0x201C \<notin> set nm" "0x201D \<notin> set nm" "0x22 \<notin> set nm"
    and "closing = 0x201C \<or> closing = 0x201D \<or> closing = 0x22"
  shows "removingOccurrences 0x22 (removingOccurrences 0x201D (removingOccurrences 0x201C (nm @ [closing]))) = nm"
    and "filter (\<lambda>c. c \<noteq> 0x201C \<and> c \<noteq> 0x201D \<and> c \<noteq> 0x22) (nm @ [closing]) = nm"
proof -
  have a: "filter (\<lambda>x. x \<noteq> 0x201C) nm = nm" "filter (\<lambda>x. x \<noteq> 0x201D) nm = nm"
    "filter (\<lambda>x. x \<noteq> 0x22) nm = nm"
    using assms(1-3) by (auto simp: filter_id_conv)
  show "removingOccurrences 0x22 (removingOccurrences 0x201D (removingOccurrences 0x201C (nm @ [closing]))) = nm"
    using assms(4) a by (auto simp: removingOccurrences_def)
  have "filter (\<lambda>c. c \<noteq> 0x201C \<and> c \<noteq> 0x201D \<and> c \<noteq> 0x22) nm = nm"
    using assms(1-3) by (auto simp: filter_id_conv)
  then show "filter (\<lambda>c. c \<noteq> 0x201C \<and> c \<noteq> 0x201D \<and> c \<noteq> 0x22) (nm @ [closing]) = nm"
    using assms(4) by auto
qed

text \<open>
  C5 (amended). Take a label \<open><Prefix> <N> <open>Name<close>\<close> where the prefix is a
  non-empty token without blanks or quotation marks, \<open>N\<close> is an integer of the 64-bit
  range in decimal writing, and the name holds no quotation mark. In the German variant
  (U+201E before the name; U+201C, U+201D or a straight quote after it) and in the
  straight-quote variant
  the helper's number parser returns \<open>N\<close> and its name parser the name trimmed. The
  fallback script returns the same number (a JavaScript number is exact below \<open>2^53\<close>),
  the name trimmed in the German variant, and the name itself in the straight-quote
  variant when it has no white space around it.
\<close>

theorem track_label_parsers:
  assumes "prefix \<noteq> []" and "0x20 \<notin> set prefix" and "0x22 \<notin> set prefix"
    and "0x201E \<notin> set prefix"
    and "IntMin \<le> n" and "n \<le> IntMax"
    and "0x201C \<notin> set nm" and "0x201D \<notin> set nm" and "0x22 \<notin> set nm"
    and "closing = 0x201C \<or> closing = 0x201D \<or> closing = 0x22"
  shows "extractTrackNumber (quotedLabel 0x201E closing prefix n nm) = n
       \<and> extractTrackName (quotedLabel 0x201E closing prefix n nm) = trimmingWhitespaces nm
       \<and> extractTrackNumber (quotedLabel 0x22 0x22 prefix n nm) = n
       \<and> (0x201E \<notin> set nm
            \<longrightarrow> extractTrackName (quotedLabel 0x22 0x22 prefix n nm) = trimmingWhitespaces nm)
       \<and> (\<bar>n\<bar> < 2 ^ 53
            \<longrightarrow> jxaTrackNumber (quotedLabel 0x201E closing prefix n nm) = Some n
              \<and> jxaTrackNumber (quotedLabel 0x22 0x22 prefix n nm) = Some n)
       \<and> jxaTrackName (quotedLabel 0x201E closing prefix n nm) = jsTrim nm
       \<and> (0x201E \<notin> set nm \<and> jsTrim nm = nm
            \<longrightarrow> jxaTrackName (quotedLabel 0x22 0x22 prefix n nm) = nm)"
proof -
  have num: "extractTrackNumber (quotedLabel q1 q2 prefix n nm) = n" for q1 q2
    using assms(1,2,5,6) by (rule extractTrackNumber_label)
  have jnum: "jxaTrackNumber (quotedLabel q1 q2 prefix n nm) = Some n" for q1 q2
    using assms(2) by (rule jxaTrackNumber_label)
  have og: "afterFirst 0x201E (quotedLabel 0x201E closing prefix n nm) = Some (nm @ [closing])"
    using assms(4) by (intro label_opening) simp_all
  have gname: "extractTrackName (quotedLabel 0x201E closing prefix n nm) = trimmingWhitespaces nm"
    unfolding extractTrackName_def og
    using filter_quotes(1) [OF assms(7,8,9,10)] by simp
  have jgname: "jxaTrackName (quotedLabel 0x201E closing prefix n nm) = jsTrim nm"
    unfolding jxaTrackName_def og
    using filter_quotes(2) [OF assms(7,8,9,10)] by simp
  have straight: "extractTrackName (quotedLabel 0x22 0x22 prefix n nm) = trimmingWhitespaces nm"
    "jxaTrackName (quotedLabel 0x22 0x22 prefix n nm) = nm"
    if "0x201E \<notin> set nm"
  proof -
    have no: "afterFirst 0x201E (quotedLabel 0x22 0x22 prefix n nm) = None"
      using assms(4) that by (rule straight_label_no_low_quote)
    have os: "afterFirst 0x22 (quotedLabel 0x22 0x22 prefix n nm) = Some (nm @ [0x22])"
      using assms(3) by (intro label_opening) simp_all
    have bf: "beforeFirst 0x22 (nm @ [0x22]) = Some nm"
      using beforeFirst_found [OF assms(9), of "[]"] by simp
    show "extractTrackName (quotedLabel 0x22 0x22 prefix n nm) = trimmingWhitespaces nm"
      unfolding extractTrackName_def no os by (simp add: bf)
    show "jxaTrackName (quotedLabel 0x22 0x22 prefix n nm) = nm"
      unfolding jxaTrackName_def no os by (simp add: beforeLast_end)
  qed
  from num jnum gname jgname straight show ?thesis by simp
qed

text \<open>
  C5, two instances: the German label of track 4, "Ioanna Mic Wet", and the English
  label of track 12, "Bass".
\<close>

theorem track_label_parsers_witness:
  "extractTrackNumber (ustr ''Spur 4 '' @ [0x201E] @ ustr ''Ioanna Mic Wet'' @ [0x201C]) = 4
   \<and> extractTrackName (ustr ''Spur 4 '' @ [0x201E] @ ustr ''Ioanna Mic Wet'' @ [0x201C])
       = ustr ''Ioanna Mic Wet''
   \<and> jxaTrackNumber (ustr ''Spur 4 '' @ [0x201E] @ ustr ''Ioanna Mic Wet'' @ [0x201C]) = Some 4
   \<and> jxaTrackName (ustr ''Spur 4 '' @ [0x201E] @ ustr ''Ioanna Mic Wet'' @ [0x201C])
       = ustr ''Ioanna Mic Wet''
   \<and> extractTrackNumber (ustr ''Track 12 '' @ [0x22] @ ustr ''Bass'' @ [0x22]) = 12
   \<and> extractTrackName (ustr ''Track 12 '' @ [0x22] @ ustr ''Bass'' @ [0x22]) = ustr ''Bass''
   \<and> jxaTrackNumber (ustr ''Track 12 '' @ [0x22] @ ustr ''Bass'' @ [0x22]) = Some 12
   \<and> jxaTrackName (ustr ''Track 12 '' @ [0x22] @ ustr ''Bass'' @ [0x22]) = ustr ''Bass''"
proof -
  have g: "quotedLabel 0x201E 0x201C (ustr ''Spur'') 4 (ustr ''Ioanna Mic Wet'')
             = ustr ''Spur 4 '' @ [0x201E] @ ustr ''Ioanna Mic Wet'' @ [0x201C]"
    by code_simp
  have s: "quotedLabel 0x22 0x22 (ustr ''Track'') 12 (ustr ''Bass'')
             = ustr ''Track 12 '' @ [0x22] @ ustr ''Bass'' @ [0x22]"
    by code_simp
  have t: "trimmingWhitespaces (ustr ''Ioanna Mic Wet'') = ustr ''Ioanna Mic Wet''"
    "jsTrim (ustr ''Ioanna Mic Wet'') = ustr ''Ioanna Mic Wet''"
    "trimmingWhitespaces (ustr ''Bass'') = ustr ''Bass''"
    "jsTrim (ustr ''Bass'') = ustr ''Bass''"
    by code_simp+
  have r: "IntMin \<le> 4" "4 \<le> IntMax" "IntMin \<le> 12" "12 \<le> IntMax"
    by (simp_all add: IntMin_def IntMax_def)
  have a: "ustr ''Spur'' \<noteq> []" "0x20 \<notin> set (ustr ''Spur'')" "0x22 \<notin> set (ustr ''Spur'')"
    "0x201E \<notin> set (ustr ''Spur'')"
    "0x201C \<notin> set (ustr ''Ioanna Mic Wet'')" "0x201D \<notin> set (ustr ''Ioanna Mic Wet'')"
    "0x22 \<notin> set (ustr ''Ioanna Mic Wet'')" "0x201E \<notin> set (ustr ''Ioanna Mic Wet'')"
    by (simp_all add: ustr_def)
  have b: "ustr ''Track'' \<noteq> []" "0x20 \<notin> set (ustr ''Track'')" "0x22 \<notin> set (ustr ''Track'')"
    "0x201E \<notin> set (ustr ''Track'')"
    "0x201C \<notin> set (ustr ''Bass'')" "0x201D \<notin> set (ustr ''Bass'')"
    "0x22 \<notin> set (ustr ''Bass'')" "0x201E \<notin> set (ustr ''Bass'')"
    by (simp_all add: ustr_def)
  have c: "(0x201C::int) = 0x201C \<or> (0x201C::int) = 0x201D \<or> (0x201C::int) = 0x22" by simp
  from track_label_parsers [OF a(1-4) r(1,2) a(5-7) c] a(8) t(1,2)
  have 1: "extractTrackNumber (ustr ''Spur 4 '' @ [0x201E] @ ustr ''Ioanna Mic Wet'' @ [0x201C]) = 4
   \<and> extractTrackName (ustr ''Spur 4 '' @ [0x201E] @ ustr ''Ioanna Mic Wet'' @ [0x201C])
       = ustr ''Ioanna Mic Wet''
   \<and> jxaTrackNumber (ustr ''Spur 4 '' @ [0x201E] @ ustr ''Ioanna Mic Wet'' @ [0x201C]) = Some 4
   \<and> jxaTrackName (ustr ''Spur 4 '' @ [0x201E] @ ustr ''Ioanna Mic Wet'' @ [0x201C])
       = ustr ''Ioanna Mic Wet''"
    unfolding g by simp
  from track_label_parsers [OF b(1-4) r(3,4) b(5-7) c] b(8) t(3,4)
  have 2: "extractTrackNumber (ustr ''Track 12 '' @ [0x22] @ ustr ''Bass'' @ [0x22]) = 12
   \<and> extractTrackName (ustr ''Track 12 '' @ [0x22] @ ustr ''Bass'' @ [0x22]) = ustr ''Bass''
   \<and> jxaTrackNumber (ustr ''Track 12 '' @ [0x22] @ ustr ''Bass'' @ [0x22]) = Some 12
   \<and> jxaTrackName (ustr ''Track 12 '' @ [0x22] @ ustr ''Bass'' @ [0x22]) = ustr ''Bass''"
    unfolding s by simp
  from 1 2 show ?thesis by simp
qed

text \<open>
  C5 as stated fails. A name in English curly quotes (U+201C, U+201D) or in guillemets
  is not recognised: the helper returns the third token with its quotation marks, the
  script the whole label. And a number beyond the 64-bit range is not parsed: the helper
  returns -1.
\<close>

theorem track_label_parsers_counterexample:
  "extractTrackName (ustr ''Track 4 '' @ [0x201C] @ ustr ''Name'' @ [0x201D])
     = [0x201C] @ ustr ''Name'' @ [0x201D]
   \<and> extractTrackName (ustr ''Track 4 '' @ [0xAB] @ ustr ''Name'' @ [0xBB])
     = [0xAB] @ ustr ''Name'' @ [0xBB]
   \<and> jxaTrackName (ustr ''Track 4 '' @ [0x201C] @ ustr ''Name'' @ [0x201D])
     = ustr ''Track 4 '' @ [0x201C] @ ustr ''Name'' @ [0x201D]
   \<and> jxaTrackName (ustr ''Track 4 '' @ [0xAB] @ ustr ''Name'' @ [0xBB])
     = ustr ''Track 4 '' @ [0xAB] @ ustr ''Name'' @ [0xBB]
   \<and> extractTrackNumber (ustr ''Track 9223372036854775808 '' @ [0x22] @ ustr ''Name'' @ [0x22])
     = - 1"
  by code_simp

section \<open>Facts about the coordinator\<close>

text \<open>
  C1. When the invocation of the Swift helper is rejected (it cannot be started, times
  out or exits with an error), or its output does not parse, or parses to the empty
  array, \<open>listTracks\<close> runs the fallback script next and returns what \<open>listTracksJXA\<close>
  returns, unchanged (an error of the fallback is thrown on with a message naming the
  prerequisites). When the output parses to a non-empty array, that array is returned
  and the helper is the only program run.
\<close>

theorem listTracks_fallback:
  "(sys (AxHelper [ustr ''list-tracks'']) = Rejected err
      \<or> sys (AxHelper [ustr ''list-tracks'']) = Resolved out
          \<and> (parse (jsTrim out) = None \<or> parse (jsTrim out) = Some (JArray []))
    \<longrightarrow> fst (listTracksTS parse gtZero sys) = [AxHelper [ustr ''list-tracks''], OsascriptJXA]
      \<and> snd (listTracksTS parse gtZero sys)
          = (case listTracksJXA parse sys of
               Inr tracks \<Rightarrow> Inr tracks
             | Inl msg \<Rightarrow>
                 Inl (ustr ''Could not list tracks. Ensure Logic Pro is open and Accessibility is granted. Details: ''
                      @ msg)))
   \<and> (sys (AxHelper [ustr ''list-tracks'']) = Resolved out
        \<and> parse (jsTrim out) = Some (JArray tracks) \<and> tracks \<noteq> []
      \<longrightarrow> listTracksTS parse gtZero sys = ([AxHelper [ustr ''list-tracks'']], Inr (JArray tracks))
        \<and> OsascriptJXA \<notin> set (fst (listTracksTS parse gtZero sys)))"
proof (intro conjI impI)
  assume h: "sys (AxHelper [ustr ''list-tracks'']) = Rejected err
      \<or> sys (AxHelper [ustr ''list-tracks'']) = Resolved out
          \<and> (parse (jsTrim out) = None \<or> parse (jsTrim out) = Some (JArray []))"
  have fb: "listTracksTS parse gtZero sys = listTracksFallback parse sys"
    using h
    by (auto simp: listTracksTS_def runAxHelper_def lengthPositive_def split: sum.splits if_splits)
  show "fst (listTracksTS parse gtZero sys) = [AxHelper [ustr ''list-tracks''], OsascriptJXA]"
    unfolding fb by (simp add: listTracksFallback_def)
  show "snd (listTracksTS parse gtZero sys)
          = (case listTracksJXA parse sys of
               Inr tracks \<Rightarrow> Inr tracks
             | Inl msg \<Rightarrow>
                 Inl (ustr ''Could not list tracks. Ensure Logic Pro is open and Accessibility is granted. Details: ''
                      @ msg))"
    unfolding fb by (simp add: listTracksFallback_def)
next
  assume h: "sys (AxHelper [ustr ''list-tracks'']) = Resolved out
        \<and> parse (jsTrim out) = Some (JArray tracks) \<and> tracks \<noteq> []"
  then show r: "listTracksTS parse gtZero sys = ([AxHelper [ustr ''list-tracks'']], Inr (JArray tracks))"
    by (simp add: listTracksTS_def runAxHelper_def lengthPositive_def)
  show "OsascriptJXA \<notin> set (fst (listTracksTS parse gtZero sys))"
    unfolding r by simp
qed

text \<open>
  C1, three runs with a parser that reads \<open>[]\<close> and \<open>[{}]\<close>: the helper is missing and the
  script prints one track; the helper prints the empty array and the script one track;
  the helper prints one track.
\<close>

theorem listTracks_fallback_witness:
  "listTracksTS
     (\<lambda>s. if s = ustr ''[{}]'' then Some (JArray [JObject []])
          else if s = ustr ''[]'' then Some (JArray []) else None)
     (\<lambda>v. False)
     (\<lambda>cmd. case cmd of
        AxHelper args \<Rightarrow> Rejected (ustr ''spawn LogicAccessibility ENOENT'')
      | OsascriptJXA \<Rightarrow> Resolved (ustr ''[{}]'' @ [0x0A]))
   = ([AxHelper [ustr ''list-tracks''], OsascriptJXA], Inr (JArray [JObject []]))
   \<and> listTracksTS
     (\<lambda>s. if s = ustr ''[{}]'' then Some (JArray [JObject []])
          else if s = ustr ''[]'' then Some (JArray []) else None)
     (\<lambda>v. False)
     (\<lambda>cmd. case cmd of
        AxHelper args \<Rightarrow> Resolved (ustr ''[]'' @ [0x0A])
      | OsascriptJXA \<Rightarrow> Resolved (ustr ''[{}]'' @ [0x0A]))
   = ([AxHelper [ustr ''list-tracks''], OsascriptJXA], Inr (JArray [JObject []]))
   \<and> listTracksTS
     (\<lambda>s. if s = ustr ''[{}]'' then Some (JArray [JObject []])
          else if s = ustr ''[]'' then Some (JArray []) else None)
     (\<lambda>v. False)
     (\<lambda>cmd. case cmd of
        AxHelper args \<Rightarrow> Resolved (ustr ''[{}]'' @ [0x0A])
      | OsascriptJXA \<Rightarrow> Rejected (ustr ''not run''))
   = ([AxHelper [ustr ''list-tracks'']], Inr (JArray [JObject []]))"
proof -
  let ?parse = "\<lambda>s. if s = ustr ''[{}]'' then Some (JArray [JObject []])
          else if s = ustr ''[]'' then Some (JArray []) else None"
  let ?sys1 = "\<lambda>cmd. case cmd of
        AxHelper args \<Rightarrow> Rejected (ustr ''spawn LogicAccessibility ENOENT'')
      | OsascriptJXA \<Rightarrow> Resolved (ustr ''[{}]'' @ [0x0A])"
  let ?sys2 = "\<lambda>cmd. case cmd of
        AxHelper args \<Rightarrow> Resolved (ustr ''[]'' @ [0x0A])
      | OsascriptJXA \<Rightarrow> Resolved (ustr ''[{}]'' @ [0x0A])"
  let ?sys3 = "\<lambda>cmd. case cmd of
        AxHelper args \<Rightarrow> Resolved (ustr ''[{}]'' @ [0x0A])
      | OsascriptJXA \<Rightarrow> Rejected (ustr ''not run'')"
  have t: "jsTrim (ustr ''[{}]'' @ [0x0A]) = ustr ''[{}]''" "jsTrim (ustr ''[]'' @ [0x0A]) = ustr ''[]''"
    by code_simp+
  have ne: "ustr ''[]'' \<noteq> ustr ''[{}]''" by (simp add: ustr_def)
  have j: "listTracksJXA ?parse ?sys1 = Inr (JArray [JObject []])"
    "listTracksJXA ?parse ?sys2 = Inr (JArray [JObject []])"
    by (simp_all add: listTracksJXA_def runJXA_def t)
  have h1: "?sys1 (AxHelper [ustr ''list-tracks''])
      = Rejected (ustr ''spawn LogicAccessibility ENOENT'')
      \<or> ?sys1 (AxHelper [ustr ''list-tracks'']) = Resolved []
          \<and> (?parse (jsTrim []) = None \<or> ?parse (jsTrim []) = Some (JArray []))"
    by simp
  have h2: "?sys2 (AxHelper [ustr ''list-tracks'']) = Rejected []
      \<or> ?sys2 (AxHelper [ustr ''list-tracks'']) = Resolved (ustr ''[]'' @ [0x0A])
          \<and> (?parse (jsTrim (ustr ''[]'' @ [0x0A])) = None
              \<or> ?parse (jsTrim (ustr ''[]'' @ [0x0A])) = Some (JArray []))"
    using ne by (simp add: t)
  have h3: "?sys3 (AxHelper [ustr ''list-tracks'']) = Resolved (ustr ''[{}]'' @ [0x0A])
        \<and> ?parse (jsTrim (ustr ''[{}]'' @ [0x0A])) = Some (JArray [JObject []])
        \<and> [JObject []] \<noteq> []"
    by (simp add: t)
  from listTracks_fallback [where sys = "?sys1" and parse = "?parse" and gtZero = "\<lambda>v. False"
      and err = "ustr ''spawn LogicAccessibility ENOENT''" and out = "[]",
      THEN conjunct1, THEN mp, OF h1] j(1)
  have 1: "listTracksTS ?parse (\<lambda>v. False) ?sys1
      = ([AxHelper [ustr ''list-tracks''], OsascriptJXA], Inr (JArray [JObject []]))"
    by (simp add: prod_eq_iff)
  from listTracks_fallback [where sys = "?sys2" and parse = "?parse" and gtZero = "\<lambda>v. False"
      and err = "[]" and out = "ustr ''[]'' @ [0x0A]",
      THEN conjunct1, THEN mp, OF h2] j(2)
  have 2: "listTracksTS ?parse (\<lambda>v. False) ?sys2
      = ([AxHelper [ustr ''list-tracks''], OsascriptJXA], Inr (JArray [JObject []]))"
    by (simp add: prod_eq_iff)
  from listTracks_fallback [where sys = "?sys3" and parse = "?parse" and gtZero = "\<lambda>v. False"
      and out = "ustr ''[{}]'' @ [0x0A]" and tracks = "[JObject []]",
      THEN conjunct2, THEN mp, OF h3]
  have 3: "listTracksTS ?parse (\<lambda>v. False) ?sys3
      = ([AxHelper [ustr ''list-tracks'']], Inr (JArray [JObject []]))"
    by simp
  from 1 2 3 show ?thesis by simp
qed

section \<open>Facts about writing a parameter\<close>

lemma setInWindows_none:
  "\<forall>w \<in> set ws. \<forall>n \<in> set (preorder 0 (getChildren w)). \<not> takesValue floatText pname val 8 n
     \<Longrightarrow> setInWindows floatText ws pname val = (False, ws)"
proof (induction ws)
  case Nil then show ?case by simp
next
  case (Cons w ws)
  obtain r t d v cs where w: "w = Element r t d v cs" by (cases w)
  have "\<forall>n \<in> set (preorder 0 cs). \<not> takesValue floatText pname val 8 n"
    using Cons.prems by (simp add: w getChildren_def)
  from findAndSet_none(1) [OF this]
  have c: "findAndSetParameter floatText cs pname val 0 8 = (False, cs)" .
  have "setInWindows floatText ws pname val = (False, ws)"
    using Cons.prems by (intro Cons.IH) simp
  with c show ?case unfolding w setInWindows.simps by simp
qed

lemma takesValue_writableMatch:
  "takesValue floatText pname val m n \<Longrightarrow> writableMatch pname m n"
  by (auto simp: takesValue_def writableMatch_def)

text \<open>
  C2 (what the code does). Let no element within the depth bound of any window have a
  label equal to the parameter name up to case and the role of a slider or a text field.
  Then the helper, run with \<open>set-param\<close>, writes the message "Parameter ... not found"
  to standard error, nothing to standard output, changes nothing and ends with exit
  status 0. The invocation therefore counts as successful: \<open>setPluginParameter\<close> of the
  bridge returns the empty string, and the tool answers that the parameter was set,
  without the error flag. The failure is not surfaced to the caller.
\<close>

theorem setPluginParameter_not_found_unreported:
  assumes "\<forall>w \<in> set (windows app). \<forall>n \<in> set (preorder 0 (getChildren w)).
             \<not> writableMatch pname 8 n"
    and "IntMin \<le> trackIndex" and "trackIndex \<le> IntMax"
    and "IntMin \<le> slotIndex" and "slotIndex \<le> IntMax"
  shows "helperMain floatText trusted
           [prog, ustr ''set-param'', decimal trackIndex, decimal slotIndex, pname, val] (Some app)
         = ((\<lparr>stdout = [],
              stderr = [ustr ''[logic-ax] Parameter '' @ [0x27] @ pname @ [0x27]
                @ ustr '' not found. Ensure the plugin window is open in Controls view.'']\<rparr>,
             0),
            Some app)
       \<and> setPluginParameterTS (helperSystem render floatText trusted (Some app))
            trackIndex slotIndex pname val = Inr []
       \<and> pluginSetParameterHandler (helperSystem render floatText trusted (Some app))
            trackIndex slotIndex pname val
          = \<lparr>contentText = ustr ''Parameter '' @ [0x22] @ pname @ [0x22] @ ustr '' set to ''
                @ [0x22] @ val @ [0x22] @ ustr ''. '',
             isError = False\<rparr>"
proof -
  have "\<forall>w \<in> set (windows app). \<forall>n \<in> set (preorder 0 (getChildren w)).
          \<not> takesValue floatText pname val 8 n"
    using assms(1) takesValue_writableMatch by blast
  then have w: "setInWindows floatText (windows app) pname val = (False, windows app)"
    by (rule setInWindows_none)
  have sp: "setPluginParameter floatText trackIndex slotIndex pname val (Some app)
      = (\<lparr>stdout = [],
          stderr = [ustr ''[logic-ax] Parameter '' @ [0x27] @ pname @ [0x27]
                @ ustr '' not found. Ensure the plugin window is open in Controls view.'']\<rparr>,
         Some app)"
    by (simp add: setPluginParameter_def w printError_def noOutput_def) (simp add: ustr_def)
  have cmd: "ustr ''set-param'' \<noteq> ustr ''check-access''" "ustr ''set-param'' \<noteq> ustr ''list-tracks''"
    "ustr ''set-param'' \<noteq> ustr ''get-params''"
    by (simp_all add: ustr_def)
  have ints: "swiftInt (decimal trackIndex) = Some trackIndex"
    "swiftInt (decimal slotIndex) = Some slotIndex"
    using assms(2-5) by (simp_all add: swiftInt_decimal)
  have main: "helperMain floatText trusted
           [p, ustr ''set-param'', decimal trackIndex, decimal slotIndex, pname, val] (Some app)
         = ((\<lparr>stdout = [],
              stderr = [ustr ''[logic-ax] Parameter '' @ [0x27] @ pname @ [0x27]
                @ ustr '' not found. Ensure the plugin window is open in Controls view.'']\<rparr>,
             0),
            Some app)" for p
    unfolding helperMain_def using cmd by (simp add: ints sp)
  have sys: "helperSystem render floatText trusted (Some app)
        (AxHelper [ustr ''set-param'', decimal trackIndex, decimal slotIndex, pname, val])
      = Resolved []"
    unfolding helperSystem_def by (simp add: main execFile_def stdoutText_def)
  have ts: "setPluginParameterTS (helperSystem render floatText trusted (Some app))
            trackIndex slotIndex pname val = Inr []"
    unfolding setPluginParameterTS_def runAxHelper_def sys by (simp add: jsTrim_def)
  have h: "pluginSetParameterHandler (helperSystem render floatText trusted (Some app))
            trackIndex slotIndex pname val
          = \<lparr>contentText = ustr ''Parameter '' @ [0x22] @ pname @ [0x22] @ ustr '' set to ''
                @ [0x22] @ val @ [0x22] @ ustr ''. '',
             isError = False\<rparr>"
    unfolding pluginSetParameterHandler_def ts by simp
  from main [of prog] ts h show ?thesis by simp
qed

text \<open>
  C2, the failing input: the tool is asked to set "Gain" to 0.5 on track 0, slot 0, while
  the only window of the application holds one slider, "Volume". The helper reports
  "not found" on standard error and exits with status 0; the tool answers
  \<open>Parameter "Gain" set to "0.5". \<close> and raises no error.
\<close>

theorem setPluginParameter_not_found_unreported_witness:
  "helperMain (\<lambda>s. Some s) True
     [ustr ''LogicAccessibility'', ustr ''set-param'', ustr ''0'', ustr ''0'', ustr ''Gain'',
      ustr ''0.5'']
     (Some \<lparr>mainWindow = None,
            windows = [Element (Some (ustr ''AXWindow'')) (Some (ustr ''Channel EQ'')) None None
              [Element (Some (ustr ''AXSlider'')) None (Some (ustr ''Volume'')) (Some (ustr ''1'')) []]]\<rparr>)
   = ((\<lparr>stdout = [],
        stderr = [ustr ''[logic-ax] Parameter '' @ [0x27] @ ustr ''Gain'' @ [0x27]
          @ ustr '' not found. Ensure the plugin window is open in Controls view.'']\<rparr>,
       0),
      Some \<lparr>mainWindow = None,
            windows = [Element (Some (ustr ''AXWindow'')) (Some (ustr ''Channel EQ'')) None None
              [Element (Some (ustr ''AXSlider'')) None (Some (ustr ''Volume'')) (Some (ustr ''1'')) []]]\<rparr>)
   \<and> pluginSetParameterHandler
       (helperSystem (\<lambda>item. []) (\<lambda>s. Some s) True
          (Some \<lparr>mainWindow = None,
                 windows = [Element (Some (ustr ''AXWindow'')) (Some (ustr ''Channel EQ'')) None None
                   [Element (Some (ustr ''AXSlider'')) None (Some (ustr ''Volume'')) (Some (ustr ''1'')) []]]\<rparr>))
       0 0 (ustr ''Gain'') (ustr ''0.5'')
     = \<lparr>contentText = ustr ''Parameter '' @ [0x22] @ ustr ''Gain'' @ [0x22] @ ustr '' set to ''
           @ [0x22] @ ustr ''0.5'' @ [0x22] @ ustr ''. '',
        isError = False\<rparr>"
proof -
  let ?app = "\<lparr>mainWindow = None,
            windows = [Element (Some (ustr ''AXWindow'')) (Some (ustr ''Channel EQ'')) None None
              [Element (Some (ustr ''AXSlider'')) None (Some (ustr ''Volume'')) (Some (ustr ''1'')) []]]\<rparr>"
  have h: "\<forall>w \<in> set (windows ?app). \<forall>n \<in> set (preorder 0 (getChildren w)).
             \<not> writableMatch (ustr ''Gain'') 8 n"
    by code_simp
  have r: "IntMin \<le> 0" "0 \<le> IntMax" by (simp_all add: IntMin_def IntMax_def)
  have d: "decimal 0 = ustr ''0''" by code_simp
  from setPluginParameter_not_found_unreported [OF h r r, where floatText = "\<lambda>s. Some s"
      and trusted = True and prog = "ustr ''LogicAccessibility''" and val = "ustr ''0.5''"
      and render = "\<lambda>item. []"]
  show ?thesis unfolding d by simp
qed

end
